theory Spec2Isabelle
  imports Main "HOL-Library.Word"
begin

unbundle bit_operations_syntax

section \<open>The shared-memory data store of gds\_shmem.c\<close>

text \<open>
  A shallow embedding of \<^verbatim>\<open>src/mca/gds/shmem/gds_shmem.c\<close>. The platform is taken to be
  LP64: \<^verbatim>\<open>size_t\<close> and \<^verbatim>\<open>uintptr_t\<close> are 64-bit unsigned words whose arithmetic wraps,
  \<^verbatim>\<open>long long\<close> is a 64-bit two's complement integer.
\<close>

type_synonym size_t = "64 word"
type_synonym uintptr_t = "64 word"

subsection \<open>Status codes\<close>

text \<open>
  The values of \<^verbatim>\<open>pmix_status_t\<close> the file names, and \<open>PMIX_ERR_OTHER\<close> for any other
  code a collaborator may hand back.
\<close>

datatype pmix_status =
    PMIX_SUCCESS
  | PMIX_ERROR
  | PMIX_ERR_BAD_PARAM
  | PMIX_ERR_NOMEM
  | PMIX_ERR_NOT_FOUND
  | PMIX_ERR_NOT_SUPPORTED
  | PMIX_ERR_TYPE_MISMATCH
  | PMIX_ERR_UNPACK_FAILURE
  | PMIX_ERR_UNPACK_READ_PAST_END_OF_BUFFER
  | PMIX_ERR_OTHER nat

subsection \<open>The typed memory arena\<close>

text \<open>
  \<^verbatim>\<open>tma->data_ptr\<close> points at the cell that holds the next free address; the model keeps
  the content of that cell, \<^verbatim>\<open>*(tma->data_ptr)\<close>, in the field \<open>data_ptr\<close>. The function
  pointers of the arena are the functions below.
\<close>

record pmix_tma =
  data_ptr :: uintptr_t

definition addr_align :: "uintptr_t \<Rightarrow> size_t \<Rightarrow> uintptr_t" where
  "addr_align base sz = (base + sz + 7) AND NOT 7"

text \<open>Each allocator returns the address it hands out and the arena with the moved cursor.\<close>

definition tma_malloc :: "pmix_tma \<Rightarrow> size_t \<Rightarrow> uintptr_t \<times> pmix_tma" where
  "tma_malloc tma sz =
     (let current = data_ptr tma
      in (current, tma\<lparr>data_ptr := addr_align current sz\<rparr>))"

definition tma_calloc :: "pmix_tma \<Rightarrow> size_t \<Rightarrow> size_t \<Rightarrow> uintptr_t \<times> pmix_tma" where
  "tma_calloc tma nmemb sz =
     (let real_size = nmemb * sz;
          current = data_ptr tma
      in (current, tma\<lparr>data_ptr := addr_align current real_size\<rparr>))"

definition tma_strdup :: "pmix_tma \<Rightarrow> string \<Rightarrow> uintptr_t \<times> pmix_tma" where
  "tma_strdup tma s =
     (let current = data_ptr tma;
          sz = word_of_nat (length s) + 1
      in (current, tma\<lparr>data_ptr := addr_align current sz\<rparr>))"

definition tma_memmove :: "pmix_tma \<Rightarrow> size_t \<Rightarrow> uintptr_t \<times> pmix_tma" where
  "tma_memmove tma sz =
     (let current = data_ptr tma
      in (current, tma\<lparr>data_ptr := addr_align current sz\<rparr>))"

definition tma_free :: "pmix_tma \<Rightarrow> uintptr_t \<Rightarrow> pmix_tma" where
  "tma_free tma ptr = tma"

text \<open>
  \<^verbatim>\<open>tma_realloc\<close> is \<^verbatim>\<open>assert(false); return NULL;\<close>. The macro \<^verbatim>\<open>assert\<close> of the C library
  aborts the process unless the file is compiled with \<^verbatim>\<open>NDEBUG\<close>, where it expands to
  nothing; the flag is the first argument.
\<close>

datatype 'a outcome = Aborted | Returned 'a

definition NULL :: uintptr_t where
  "NULL = 0"

definition tma_realloc :: "bool \<Rightarrow> pmix_tma \<Rightarrow> uintptr_t \<Rightarrow> size_t \<Rightarrow> uintptr_t outcome" where
  "tma_realloc ndebug tma ptr sz = (if ndebug then Returned NULL else Aborted)"

text \<open>
  A run of \<^verbatim>\<open>tma_malloc\<close> calls on one arena: the addresses returned, in order, and the
  arena afterwards.
\<close>

fun tma_mallocs :: "pmix_tma \<Rightarrow> size_t list \<Rightarrow> uintptr_t list \<times> pmix_tma" where
  "tma_mallocs tma [] = ([], tma)"
| "tma_mallocs tma (n # ns) =
     (let (a, tma') = tma_malloc tma n;
          (as, tma'') = tma_mallocs tma' ns
      in (a # as, tma''))"

text \<open>The rounding of the specification: \<open>align8 p = (p + 7) & ~7\<close>.\<close>

definition align8 :: "uintptr_t \<Rightarrow> uintptr_t" where
  "align8 p = (p + 7) AND NOT 7"

subsection \<open>Page rounding\<close>

text \<open>
  \<^verbatim>\<open>get_page_size\<close> reads \<^verbatim>\<open>sysconf(_SC_PAGE_SIZE)\<close>, a \<^verbatim>\<open>long\<close>; the value read is the
  argument.
\<close>

definition get_page_size :: "int \<Rightarrow> size_t" where
  "get_page_size i = (if -1 = i then 0 else word_of_int i)"

definition pad_amount_to_page :: "int \<Rightarrow> size_t \<Rightarrow> size_t" where
  "pad_amount_to_page sysconf_page_size sz =
     (let page_size = get_page_size sysconf_page_size
      in ((NOT sz) + page_size + 1) AND (page_size - 1))"

text \<open>
  The rounding of the specification, \<open>ceil(requested_size, page_size)\<close>, on natural numbers:
  the least multiple of \<open>P\<close> that is not below \<open>n\<close>.
\<close>

definition spec_ceil_to_page :: "nat \<Rightarrow> nat \<Rightarrow> nat" where
  "spec_ceil_to_page P n = ((n + P - 1) div P) * P"

subsection \<open>Job trackers, segments and status flags\<close>

datatype pmix_gds_shmem_job_shmem_id =
    PMIX_GDS_SHMEM_JOB_ID
  | PMIX_GDS_SHMEM_MODEX_ID
  | PMIX_GDS_SHMEM_INVALID_ID

datatype pmix_gds_shmem_status_flag =
    PMIX_GDS_SHMEM_ATTACHED
  | PMIX_GDS_SHMEM_READY_FOR_USE
  | PMIX_GDS_SHMEM_RELEASE

text \<open>The fields of \<^verbatim>\<open>pmix_shmem_t\<close> that the file reads and writes.\<close>

record pmix_shmem =
  backing_path :: string
  size_shmem :: size_t
  base_address :: uintptr_t

text \<open>
  The tracker of one namespace. \<open>nspace_nprocs\<close> is \<^verbatim>\<open>job->nspace->nprocs\<close>. A status is the
  set of the flags that are set in the status word. \<open>smdata\<close> and \<open>smmodex\<close> are pointers to
  the headers at the base of the two segments; the headers lie in the segments, and what the
  file writes there appears in the calls it makes (\<open>event\<close> below).
\<close>

record pmix_gds_shmem_job =
  nspace_id :: string
  nspace_nprocs :: size_t
  shmem_status :: "pmix_gds_shmem_status_flag set"
  shmem :: pmix_shmem
  smdata :: uintptr_t
  modex_shmem_status :: "pmix_gds_shmem_status_flag set"
  modex_shmem :: pmix_shmem
  smmodex :: uintptr_t

text \<open>
  Modelled from the spec: \<^verbatim>\<open>pmix_gds_shmem_get_job_shmem_by_id\<close>,
  \<^verbatim>\<open>pmix_gds_shmem_set_status\<close> and \<^verbatim>\<open>pmix_gds_shmem_has_status\<close> are declared in
  \<^verbatim>\<open>gds_shmem_utils.h\<close>. A tracker has one segment and one set of independent flags per
  role, \<open>JOB\<close> and \<open>MODEX\<close>; the invalid role has neither, and asking for its segment is
  an error.
\<close>

definition pmix_gds_shmem_get_job_shmem_by_id ::
    "pmix_gds_shmem_job \<Rightarrow> pmix_gds_shmem_job_shmem_id \<Rightarrow> pmix_status + pmix_shmem" where
  "pmix_gds_shmem_get_job_shmem_by_id job shmem_id =
     (case shmem_id of
        PMIX_GDS_SHMEM_JOB_ID \<Rightarrow> Inr (shmem job)
      | PMIX_GDS_SHMEM_MODEX_ID \<Rightarrow> Inr (modex_shmem job)
      | PMIX_GDS_SHMEM_INVALID_ID \<Rightarrow> Inl PMIX_ERROR)"

definition pmix_gds_shmem_set_status ::
    "pmix_gds_shmem_job \<Rightarrow> pmix_gds_shmem_job_shmem_id \<Rightarrow> pmix_gds_shmem_status_flag
      \<Rightarrow> pmix_gds_shmem_job" where
  "pmix_gds_shmem_set_status job shmem_id flag =
     (case shmem_id of
        PMIX_GDS_SHMEM_JOB_ID \<Rightarrow> job\<lparr>shmem_status := insert flag (shmem_status job)\<rparr>
      | PMIX_GDS_SHMEM_MODEX_ID \<Rightarrow>
          job\<lparr>modex_shmem_status := insert flag (modex_shmem_status job)\<rparr>
      | PMIX_GDS_SHMEM_INVALID_ID \<Rightarrow> job)"

definition pmix_gds_shmem_has_status ::
    "pmix_gds_shmem_job \<Rightarrow> pmix_gds_shmem_job_shmem_id \<Rightarrow> pmix_gds_shmem_status_flag
      \<Rightarrow> bool" where
  "pmix_gds_shmem_has_status job shmem_id flag =
     (case shmem_id of
        PMIX_GDS_SHMEM_JOB_ID \<Rightarrow> flag \<in> shmem_status job
      | PMIX_GDS_SHMEM_MODEX_ID \<Rightarrow> flag \<in> modex_shmem_status job
      | PMIX_GDS_SHMEM_INVALID_ID \<Rightarrow> False)"

text \<open>
  The segment objects are reached through pointers; a call that changes one is followed
  in the model by writing the object back into the tracker.
\<close>

definition put_job_shmem ::
    "pmix_gds_shmem_job \<Rightarrow> pmix_gds_shmem_job_shmem_id \<Rightarrow> pmix_shmem \<Rightarrow> pmix_gds_shmem_job" where
  "put_job_shmem job shmem_id s =
     (case shmem_id of
        PMIX_GDS_SHMEM_JOB_ID \<Rightarrow> job\<lparr>shmem := s\<rparr>
      | PMIX_GDS_SHMEM_MODEX_ID \<Rightarrow> job\<lparr>modex_shmem := s\<rparr>
      | PMIX_GDS_SHMEM_INVALID_ID \<Rightarrow> job)"

subsection \<open>Key/value pairs and buffers\<close>

text \<open>
  A value carries its type tag and, for the types the file looks into, its data: the
  string, the size of a data array, the content of a byte object. The byte objects the file
  unpacks hold a packed buffer of string-valued pairs, the connection information of a
  segment; such a buffer is the sequence of what successive calls of the codec's unpack
  deliver from it: a pair (key and string), or an error status of the codec.
  \<^verbatim>\<open>unpack_shmem_connection_info\<close> reads \<^verbatim>\<open>data.string\<close> of every pair without looking at
  its type, so the model covers the blobs whose values are strings, as
  \<^verbatim>\<open>pack_shmem_connection_info\<close> writes them.
\<close>

type_synonym seg_blob_buffer = "(pmix_status + string \<times> string) list"

datatype pmix_value =
    PMIX_STRING string
  | PMIX_BYTE_OBJECT seg_blob_buffer
  | PMIX_DATA_ARRAY size_t
  | PMIX_OTHER_TYPE

record pmix_kval =
  key :: string
  val :: pmix_value

text \<open>A buffer of pairs of any type, as a reply carries them.\<close>

type_synonym pmix_buffer = "(pmix_status + pmix_kval) list"

text \<open>
  Modelled from the spec: the macro \<^verbatim>\<open>PMIX_CHECK_KEY\<close> and the key names of
  \<^verbatim>\<open>pmix_common.h\<close>. A key is recognised when it is the named key.
\<close>

definition PMIX_CHECK_KEY :: "string \<Rightarrow> string \<Rightarrow> bool" where
  "PMIX_CHECK_KEY k name = (k = name)"

definition PMIX_PROC_DATA :: string where
  "PMIX_PROC_DATA = ''pmix.pdata''"

definition PMIX_SESSION_INFO_ARRAY :: string where
  "PMIX_SESSION_INFO_ARRAY = ''pmix.ssn.arr''"

definition PMIX_NODE_INFO_ARRAY :: string where
  "PMIX_NODE_INFO_ARRAY = ''pmix.node.arr''"

definition PMIX_APP_INFO_ARRAY :: string where
  "PMIX_APP_INFO_ARRAY = ''pmix.app.arr''"

definition SHMEM_SEG_BLOB_KEY :: string where
  "SHMEM_SEG_BLOB_KEY = ''PMIX_GDS_SHMEM_SEG_BLOB''"

definition SHMEM_SEG_NSID_KEY :: string where
  "SHMEM_SEG_NSID_KEY = ''PMIX_GDS_SHMEM_NSPACEID''"

definition SHMEM_SEG_SMID_KEY :: string where
  "SHMEM_SEG_SMID_KEY = ''PMIX_GDS_SHMEM_SMSEGID''"

definition SHMEM_SEG_PATH_KEY :: string where
  "SHMEM_SEG_PATH_KEY = ''PMIX_GDS_SHMEM_SEG_PATH''"

definition SHMEM_SEG_SIZE_KEY :: string where
  "SHMEM_SEG_SIZE_KEY = ''PMIX_GDS_SHMEM_SEG_SIZE''"

definition SHMEM_SEG_ADDR_KEY :: string where
  "SHMEM_SEG_ADDR_KEY = ''PMIX_GDS_SHMEM_SEG_ADDR''"

subsection \<open>Collaborators\<close>

text \<open>
  What the file calls and does not define is a parameter: the shared-memory primitive
  (\<^verbatim>\<open>pmix_shmem_segment_create\<close>, \<^verbatim>\<open>_attach\<close>, \<^verbatim>\<open>_detach\<close>, each returning the segment
  object as it leaves it), the hole finder, the hash table (\<open>ht_capacity_of_init n\<close> is the
  \<^verbatim>\<open>ht_capacity\<close> of a table after \<^verbatim>\<open>pmix_hash_table_init\<close> with \<open>n\<close>), the codec
  (\<open>bfrops_pack_kval\<close> gives the status of packing a pair and the bytes it adds to the
  buffer), the sizes of the structures, whether \<^verbatim>\<open>asprintf\<close> fails for want of memory on a
  given text, and the values of the environment. \<open>base_tmpdir\<close> is the directory
  \<^verbatim>\<open>fetch_base_tmpdir\<close> settles on.
  A segment size is scaled twice, \<^verbatim>\<open>seg_size *= fluff\<close> with the \<^verbatim>\<open>float\<close> constant 2.5 and
  \<^verbatim>\<open>seg_size *= pmix_gds_shmem_segment_size_multiplier\<close>: the size is converted to floating
  point, multiplied and converted back to \<^verbatim>\<open>size_t\<close>. Floating-point arithmetic is not
  modelled: the conversion and product is the parameter \<open>size_times_float\<close>, which takes the
  size and the factor, a binary fraction given by mantissa and exponent (\<open>(m, e)\<close> is
  \<open>m * 2 ^ e\<close>).
\<close>

record collaborators =
  sysconf_page_size :: int
  pmix_vmem_find_hole :: "size_t \<Rightarrow> pmix_status \<times> size_t"
  base_tmpdir :: string
  package_name :: string
  hostname :: string
  getpid :: nat
  path_max :: nat
  pmix_shmem_segment_create :: "pmix_shmem \<Rightarrow> size_t \<Rightarrow> string \<Rightarrow> pmix_status \<times> pmix_shmem"
  pmix_shmem_segment_attach ::
    "pmix_shmem \<Rightarrow> uintptr_t \<Rightarrow> pmix_status \<times> uintptr_t \<times> pmix_shmem"
  pmix_shmem_segment_detach :: "pmix_shmem \<Rightarrow> pmix_shmem"
  ht_capacity_of_init :: "size_t \<Rightarrow> size_t"
  pmix_hash_table_sizeof_hash_element :: size_t
  sizeof_pmix_hash_table_t :: size_t
  sizeof_pmix_list_t :: size_t
  sizeof_pmix_kval_t :: size_t
  sizeof_pmix_value_t :: size_t
  sizeof_pmix_tma_t :: size_t
  sizeof_session :: size_t
  sizeof_smdata :: size_t
  sizeof_smmodex :: size_t
  bfrops_pack_kval :: "pmix_kval \<Rightarrow> pmix_status \<times> size_t"
  asprintf_fails :: "string \<Rightarrow> bool"
  size_times_float :: "size_t \<Rightarrow> int \<times> int \<Rightarrow> size_t"
  pmix_gds_shmem_segment_size_multiplier :: "int \<times> int"

text \<open>The constant \<^verbatim>\<open>fluff = 2.5\<close>, that is \<open>5 * 2 ^ - 1\<close>, and the two scalings.\<close>

definition fluff :: "int \<times> int" where
  "fluff = (5, - 1)"

definition mul_fluff :: "collaborators \<Rightarrow> size_t \<Rightarrow> size_t" where
  "mul_fluff env seg_size = size_times_float env seg_size fluff"

definition mul_segment_size_multiplier :: "collaborators \<Rightarrow> size_t \<Rightarrow> size_t" where
  "mul_segment_size_multiplier env seg_size =
     size_times_float env seg_size (pmix_gds_shmem_segment_size_multiplier env)"

text \<open>
  The calls made to the collaborators, in order, with the arguments that matter.
\<close>

datatype event =
    Vmem_find_hole size_t
  | Segment_create pmix_gds_shmem_job_shmem_id size_t string
  | Segment_attach pmix_gds_shmem_job_shmem_id uintptr_t
  | Segment_detach pmix_gds_shmem_job_shmem_id
  | Show_help string
  | Tma_init pmix_gds_shmem_job_shmem_id uintptr_t
  | Obj_new pmix_gds_shmem_job_shmem_id string
  | Hash_table_init pmix_gds_shmem_job_shmem_id size_t
  | Store_modex_in_shmem

subsection \<open>Formatted output\<close>

text \<open>
  The conversions of \<^verbatim>\<open>printf\<close> the file uses: \<^verbatim>\<open>%d\<close> and \<^verbatim>\<open>%zd\<close> print a signed decimal
  number, \<^verbatim>\<open>%zx\<close> an unsigned number in lowercase hexadecimal, neither with a prefix nor
  with leading zeros.
\<close>

definition digit_char :: "nat \<Rightarrow> char" where
  "digit_char d = ''0123456789abcdef'' ! d"

function print_unsigned :: "nat \<Rightarrow> nat \<Rightarrow> string" where
  "print_unsigned base n =
     (if base < 2 \<or> n < base then [digit_char n]
      else print_unsigned base (n div base) @ [digit_char (n mod base)])"
  by pat_completeness auto
termination
  by (relation "measure (\<lambda>(base, n). n)") auto

declare print_unsigned.simps [simp del]

definition printf_d :: "int \<Rightarrow> string" where
  "printf_d i = (if i < 0 then CHR ''-'' # print_unsigned 10 (nat (- i))
                 else print_unsigned 10 (nat i))"

definition printf_zd :: "size_t \<Rightarrow> string" where
  "printf_zd w = printf_d (sint w)"

definition printf_zx :: "size_t \<Rightarrow> string" where
  "printf_zx w = print_unsigned 16 (unat w)"

subsection \<open>Creating and attaching segments\<close>

text \<open>
  Modelled from the spec: the macro \<^verbatim>\<open>PMIX_GDS_SHMEM_NAME\<close> of \<^verbatim>\<open>gds_shmem.h\<close>, the name
  of the module, which the specification writes into the path as \<open>gds-shmem\<close>.
\<close>

definition PMIX_GDS_SHMEM_NAME :: string where
  "PMIX_GDS_SHMEM_NAME = ''shmem''"

definition get_shmem_backing_path ::
    "collaborators \<Rightarrow> pmix_gds_shmem_job \<Rightarrow> string \<Rightarrow> string option" where
  "get_shmem_backing_path env job ident =
     (let basedir = base_tmpdir env;
          path = basedir @ ''/'' @ package_name env @ ''-gds-'' @ PMIX_GDS_SHMEM_NAME @ ''.''
                 @ hostname env @ ''-'' @ nspace_id job @ ''.'' @ ident @ ''.''
                 @ printf_d (int (getpid env));
          nw = length path
      in if nw \<ge> path_max env then None else Some path)"

text \<open>
  The functions below return the status, the tracker as they leave it, and the calls they
  made. \<open>segment_event\<close> tells the calls that find, create, attach and detach a segment from
  those that lay out its header.
\<close>

fun segment_event :: "event \<Rightarrow> bool" where
  "segment_event (Vmem_find_hole n) = True"
| "segment_event (Segment_create i n p) = True"
| "segment_event (Segment_attach i a) = True"
| "segment_event (Segment_detach i) = True"
| "segment_event (Show_help t) = True"
| "segment_event (Tma_init i a) = False"
| "segment_event (Obj_new i c) = False"
| "segment_event (Hash_table_init i n) = False"
| "segment_event Store_modex_in_shmem = False"

definition shmem_attach ::
    "collaborators \<Rightarrow> pmix_gds_shmem_job \<Rightarrow> pmix_gds_shmem_job_shmem_id \<Rightarrow> uintptr_t
      \<Rightarrow> pmix_status \<times> pmix_gds_shmem_job \<times> event list" where
  "shmem_attach env job shmem_id req_addr =
     (case pmix_gds_shmem_get_job_shmem_by_id job shmem_id of
        Inl rc \<Rightarrow> (rc, job, [])
      | Inr shmem0 \<Rightarrow>
          (case pmix_shmem_segment_attach env shmem0 req_addr of
             (rc, mmap_addr, shmem1) \<Rightarrow>
               let job1 = put_job_shmem job shmem_id shmem1;
                   ev = [Segment_attach shmem_id req_addr]
               in if PMIX_SUCCESS \<noteq> rc then (rc, job1, ev)
                  else if mmap_addr \<noteq> req_addr then
                    (PMIX_ERROR,
                     put_job_shmem job1 shmem_id (pmix_shmem_segment_detach env shmem1),
                     ev @ [Show_help ''shmem-segment-attach:address-mismatch'',
                           Segment_detach shmem_id])
                  else
                    (PMIX_SUCCESS,
                     pmix_gds_shmem_set_status job1 shmem_id PMIX_GDS_SHMEM_ATTACHED, ev)))"

definition init_client_side_sm_data ::
    "pmix_gds_shmem_job \<Rightarrow> pmix_gds_shmem_job_shmem_id \<Rightarrow> pmix_status \<times> pmix_gds_shmem_job" where
  "init_client_side_sm_data job shmem_id =
     (case shmem_id of
        PMIX_GDS_SHMEM_JOB_ID \<Rightarrow>
          (PMIX_SUCCESS,
           pmix_gds_shmem_set_status (job\<lparr>smdata := base_address (shmem job)\<rparr>) shmem_id
             PMIX_GDS_SHMEM_READY_FOR_USE)
      | PMIX_GDS_SHMEM_MODEX_ID \<Rightarrow>
          (PMIX_SUCCESS,
           pmix_gds_shmem_set_status (job\<lparr>smmodex := base_address (modex_shmem job)\<rparr>) shmem_id
             PMIX_GDS_SHMEM_READY_FOR_USE)
      | PMIX_GDS_SHMEM_INVALID_ID \<Rightarrow> (PMIX_ERROR, job))"

text \<open>
  The connection information of a segment as a client unpacks it. The two strings are
  pointers, \<^verbatim>\<open>NULL\<close> (\<open>None\<close>) until an entry of the blob sets them.
\<close>

record pmix_gds_shmem_unpacked_seg_blob =
  nsid :: "string option"
  smid :: pmix_gds_shmem_job_shmem_id
  seg_path :: "string option"
  seg_size :: size_t
  seg_addr :: size_t

definition unpacked_seg_blob_construct :: pmix_gds_shmem_unpacked_seg_blob where
  "unpacked_seg_blob_construct =
     \<lparr>nsid = None, smid = PMIX_GDS_SHMEM_INVALID_ID, seg_path = None, seg_size = 0,
      seg_addr = 0\<rparr>"

text \<open>
  Modelled from the spec: \<^verbatim>\<open>pmix_string_copy\<close> of \<^verbatim>\<open>src/util/pmix_string_copy.h\<close>. The
  backing path of a segment has a bounded length: of the source, at most \<open>dest_len - 1\<close>
  characters are kept.
\<close>

definition pmix_string_copy :: "string \<Rightarrow> nat \<Rightarrow> string" where
  "pmix_string_copy src dest_len = take (dest_len - 1) src"

text \<open>
  \<^verbatim>\<open>shmem_segment_attach_and_init\<close> copies the path out of \<^verbatim>\<open>seginfo->seg_path\<close>; when the
  blob had no path entry the pointer is \<^verbatim>\<open>NULL\<close> and the copy reads through it, which ends
  the process.
\<close>

definition shmem_segment_attach_and_init ::
    "collaborators \<Rightarrow> pmix_gds_shmem_job \<Rightarrow> pmix_gds_shmem_unpacked_seg_blob
      \<Rightarrow> (pmix_status \<times> pmix_gds_shmem_job \<times> event list) outcome" where
  "shmem_segment_attach_and_init env job seginfo =
     (case pmix_gds_shmem_get_job_shmem_by_id job (smid seginfo) of
        Inl rc \<Rightarrow> Returned (rc, job, [])
      | Inr shmem0 \<Rightarrow>
          (case seg_path seginfo of
             None \<Rightarrow> Aborted
           | Some p \<Rightarrow>
               let buffmax = path_max env;
                   shmem1 = shmem0\<lparr>backing_path := pmix_string_copy p buffmax,
                                   size_shmem := seg_size seginfo\<rparr>;
                   job1 = put_job_shmem job (smid seginfo) shmem1;
                   req_addr = seg_addr seginfo
               in case shmem_attach env job1 (smid seginfo) req_addr of
                    (rc, job2, ev) \<Rightarrow>
                      if rc \<noteq> PMIX_SUCCESS then Returned (rc, job2, ev)
                      else
                        (case init_client_side_sm_data job2 (smid seginfo) of
                           (rc', job3) \<Rightarrow> Returned (rc', job3, ev))))"

text \<open>The label \<^verbatim>\<open>out\<close> of \<^verbatim>\<open>shmem_segment_create_and_attach\<close>.\<close>

definition shmem_segment_create_and_attach_out ::
    "pmix_gds_shmem_job_shmem_id \<Rightarrow> pmix_status \<times> pmix_gds_shmem_job \<times> event list
      \<Rightarrow> pmix_status \<times> pmix_gds_shmem_job \<times> event list" where
  "shmem_segment_create_and_attach_out shmem_id r =
     (case r of (rc, job, ev) \<Rightarrow>
        if PMIX_SUCCESS = rc
        then (rc, pmix_gds_shmem_set_status job shmem_id PMIX_GDS_SHMEM_RELEASE, ev)
        else (rc, job, ev))"

definition shmem_segment_create_and_attach ::
    "collaborators \<Rightarrow> pmix_gds_shmem_job \<Rightarrow> pmix_gds_shmem_job_shmem_id \<Rightarrow> string \<Rightarrow> size_t
      \<Rightarrow> pmix_status \<times> pmix_gds_shmem_job \<times> event list" where
  "shmem_segment_create_and_attach env job shmem_id segment_name segment_size =
     shmem_segment_create_and_attach_out shmem_id
       (let real_segsize = segment_size + pad_amount_to_page (sysconf_page_size env) segment_size;
            ev0 = [Vmem_find_hole real_segsize]
        in case pmix_vmem_find_hole env real_segsize of
             (rc0, base_addr) \<Rightarrow>
               if PMIX_SUCCESS \<noteq> rc0 then (rc0, job, ev0)
               else
                 (case get_shmem_backing_path env job segment_name of
                    None \<Rightarrow> (PMIX_ERROR, job, ev0)
                  | Some segment_path \<Rightarrow>
                      (case pmix_gds_shmem_get_job_shmem_by_id job shmem_id of
                         Inl rc1 \<Rightarrow> (rc1, job, ev0)
                       | Inr shmem0 \<Rightarrow>
                           (case pmix_shmem_segment_create env shmem0 real_segsize segment_path of
                              (rc2, shmem1) \<Rightarrow>
                                let job1 = put_job_shmem job shmem_id shmem1;
                                    ev1 = ev0 @ [Segment_create shmem_id real_segsize segment_path]
                                in if PMIX_SUCCESS \<noteq> rc2 then (rc2, job1, ev1)
                                   else
                                     (case shmem_attach env job1 shmem_id base_addr of
                                        (rc3, job2, ev2) \<Rightarrow> (rc3, job2, ev1 @ ev2))))))"

subsection \<open>Sizing the job segment\<close>

record pmix_gds_shmem_local_job_stats =
  packed_size :: size_t
  hash_table_size :: size_t

definition get_actual_hashtab_capacity :: "collaborators \<Rightarrow> size_t \<Rightarrow> size_t" where
  "get_actual_hashtab_capacity env num_elements = ht_capacity_of_init env num_elements"

text \<open>
  The loop of \<^verbatim>\<open>get_local_job_data_stats\<close> over the fetched pairs, with the entry count and
  the bytes used of the scratch buffer so far; it stops at the first pair the codec does not
  pack.
\<close>

fun get_local_job_data_stats_loop ::
    "collaborators \<Rightarrow> pmix_kval list \<Rightarrow> size_t \<Rightarrow> size_t \<Rightarrow> pmix_status \<times> size_t \<times> size_t" where
  "get_local_job_data_stats_loop env [] nhtentries bytes_used =
     (PMIX_SUCCESS, nhtentries, bytes_used)"
| "get_local_job_data_stats_loop env (kvi # kvs) nhtentries bytes_used =
     (let nhtentries' =
            (case val kvi of
               PMIX_DATA_ARRAY darray_size \<Rightarrow>
                 if PMIX_CHECK_KEY (key kvi) PMIX_PROC_DATA then nhtentries + darray_size
                 else nhtentries
             | _ \<Rightarrow> nhtentries + 1)
      in case bfrops_pack_kval env kvi of
           (rc, nbytes) \<Rightarrow>
             if PMIX_SUCCESS \<noteq> rc then (rc, nhtentries', bytes_used)
             else get_local_job_data_stats_loop env kvs nhtentries' (bytes_used + nbytes))"

definition get_local_job_data_stats ::
    "collaborators \<Rightarrow> pmix_kval list \<Rightarrow> pmix_status \<times> pmix_gds_shmem_local_job_stats" where
  "get_local_job_data_stats env kvs =
     (case get_local_job_data_stats_loop env kvs 0 0 of
        (rc, nhtentries, bytes_used) \<Rightarrow>
          if PMIX_SUCCESS \<noteq> rc then (rc, \<lparr>packed_size = 0, hash_table_size = 0\<rparr>)
          else (rc, \<lparr>packed_size = bytes_used,
                     hash_table_size = get_actual_hashtab_capacity env nhtentries\<rparr>))"

text \<open>
  \<^verbatim>\<open>job_smdata_construct\<close> lays the header at the base of the job segment: the arena starts
  behind it, the three lists and the hash table are allocated in the arena by \<^verbatim>\<open>PMIX_NEW\<close>,
  and the hash table is initialised with \<open>htsize\<close>.
\<close>

definition job_smdata_construct ::
    "collaborators \<Rightarrow> pmix_gds_shmem_job \<Rightarrow> size_t
      \<Rightarrow> pmix_status \<times> pmix_gds_shmem_job \<times> event list" where
  "job_smdata_construct env job htsize =
     (let baseaddr = base_address (shmem job)
      in (PMIX_SUCCESS, job\<lparr>smdata := baseaddr\<rparr>,
          [Tma_init PMIX_GDS_SHMEM_JOB_ID (addr_align baseaddr (sizeof_smdata env)),
           Obj_new PMIX_GDS_SHMEM_JOB_ID ''pmix_list_t'',
           Obj_new PMIX_GDS_SHMEM_JOB_ID ''pmix_list_t'',
           Obj_new PMIX_GDS_SHMEM_JOB_ID ''pmix_list_t'',
           Obj_new PMIX_GDS_SHMEM_JOB_ID ''pmix_hash_table_t'',
           Hash_table_init PMIX_GDS_SHMEM_JOB_ID htsize]))"


definition prepare_shmem_store_for_local_job_data ::
    "collaborators \<Rightarrow> pmix_gds_shmem_job \<Rightarrow> pmix_gds_shmem_local_job_stats
      \<Rightarrow> pmix_status \<times> pmix_gds_shmem_job \<times> event list" where
  "prepare_shmem_store_for_local_job_data env job stats =
     (let kvsize = sizeof_pmix_kval_t env + sizeof_pmix_value_t env;
          htsize = hash_table_size stats;
          seg_size0 = sizeof_smdata env + sizeof_pmix_tma_t env + sizeof_session env
                      + sizeof_pmix_list_t env + sizeof_pmix_list_t env + sizeof_pmix_list_t env
                      + sizeof_pmix_hash_table_t env;
          seg_size1 = seg_size0 + sizeof_pmix_hash_table_t env;
          seg_size2 = seg_size1 + htsize * pmix_hash_table_sizeof_hash_element env;
          seg_size3 = seg_size2 + htsize * kvsize;
          seg_size4 = seg_size3 + packed_size stats;
          seg_size5 = mul_fluff env seg_size4;
          seg_size = mul_segment_size_multiplier env seg_size5
      in case shmem_segment_create_and_attach env job PMIX_GDS_SHMEM_JOB_ID ''jobdata'' seg_size of
           (rc, job1, ev1) \<Rightarrow>
             if PMIX_SUCCESS \<noteq> rc then (rc, job1, ev1)
             else
               (case job_smdata_construct env job1 htsize of
                  (rc', job2, ev2) \<Rightarrow> (rc', job2, ev1 @ ev2)))"

text \<open>
  The count of expected hash-table entries as the specification words it: a data array
  under the process-data key counts with its length, every other pair counts one.
\<close>

definition spec_hash_entries :: "pmix_kval \<Rightarrow> size_t" where
  "spec_hash_entries kv =
     (case val kv of
        PMIX_DATA_ARRAY n \<Rightarrow> if key kv = PMIX_PROC_DATA then n else 1
      | _ \<Rightarrow> 1)"

subsection \<open>Storing modex data\<close>


subsection \<open>Deleting a namespace\<close>

text \<open>
  The loop of \<^verbatim>\<open>del_nspace\<close> over the list of trackers of the component: the list without the
  first tracker of the namespace, and that tracker, which is released. The trackers of the
  list carry the namespace they were entered for, so \<^verbatim>\<open>strcmp\<close> compares two strings.
\<close>

fun del_nspace_loop ::
    "string \<Rightarrow> pmix_gds_shmem_job list \<Rightarrow> pmix_gds_shmem_job list \<times> pmix_gds_shmem_job option" where
  "del_nspace_loop nspace [] = ([], None)"
| "del_nspace_loop nspace (ji # jobs) =
     (if nspace = nspace_id ji then (jobs, Some ji)
      else (case del_nspace_loop nspace jobs of (jobs', released) \<Rightarrow> (ji # jobs', released)))"

definition del_nspace ::
    "string \<Rightarrow> pmix_gds_shmem_job list
      \<Rightarrow> pmix_status \<times> pmix_gds_shmem_job list \<times> pmix_gds_shmem_job option" where
  "del_nspace nspace jobs =
     (case del_nspace_loop nspace jobs of (jobs', released) \<Rightarrow> (PMIX_SUCCESS, jobs', released))"

subsection \<open>Reading numbers\<close>

text \<open>
  \<^verbatim>\<open>strtoll\<close> of the C library, for the bases 10 and 16 that the file passes: it skips white
  space, reads a sign, for base 16 skips a \<^verbatim>\<open>0x\<close> in front of a digit, and converts the
  longest run of digits of the base. The result is the value, the text from \<^verbatim>\<open>*end\<close> on, and
  whether \<^verbatim>\<open>errno\<close> is \<^verbatim>\<open>ERANGE\<close>; without any digit nothing is converted and \<^verbatim>\<open>end\<close> is the
  start of the string; a value out of the range of \<^verbatim>\<open>long long\<close> is replaced by the nearest
  bound.
\<close>

definition isspace :: "char \<Rightarrow> bool" where
  "isspace c = (c = CHR '' '' \<or> (9 \<le> (of_char c :: nat) \<and> (of_char c :: nat) \<le> 13))"

definition digit_value :: "char \<Rightarrow> nat option" where
  "digit_value c =
     (let n = (of_char c :: nat)
      in if 48 \<le> n \<and> n \<le> 57 then Some (n - 48)
         else if 97 \<le> n \<and> n \<le> 122 then Some (n - 87)
         else if 65 \<le> n \<and> n \<le> 90 then Some (n - 55)
         else None)"

definition is_digit_in :: "nat \<Rightarrow> char \<Rightarrow> bool" where
  "is_digit_in base c = (case digit_value c of None \<Rightarrow> False | Some d \<Rightarrow> d < base)"

fun digits_value :: "nat \<Rightarrow> nat \<Rightarrow> string \<Rightarrow> nat" where
  "digits_value base acc [] = acc"
| "digits_value base acc (c # cs) =
     digits_value base (acc * base + (case digit_value c of None \<Rightarrow> 0 | Some d \<Rightarrow> d)) cs"

definition LLONG_MAX :: int where
  "LLONG_MAX = 2 ^ 63 - 1"

definition LLONG_MIN :: int where
  "LLONG_MIN = - (2 ^ 63)"

definition strtoll_sign :: "string \<Rightarrow> bool \<times> string" where
  "strtoll_sign s =
     (case s of
        [] \<Rightarrow> (False, s)
      | c # cs \<Rightarrow> if c = CHR ''-'' then (True, cs)
                  else if c = CHR ''+'' then (False, cs)
                  else (False, s))"

definition strtoll_prefix :: "nat \<Rightarrow> string \<Rightarrow> string" where
  "strtoll_prefix base s =
     (case s of
        c0 # cx # c # cs \<Rightarrow>
          if base = 16 \<and> c0 = CHR ''0'' \<and> (cx = CHR ''x'' \<or> cx = CHR ''X'') \<and> is_digit_in 16 c
          then c # cs else s
      | _ \<Rightarrow> s)"

definition strtoll :: "string \<Rightarrow> nat \<Rightarrow> int \<times> string \<times> bool" where
  "strtoll str base =
     (case strtoll_sign (dropWhile isspace str) of
        (negative, s2) \<Rightarrow>
          let s3 = strtoll_prefix base s2;
              ds = takeWhile (is_digit_in base) s3;
              rest = dropWhile (is_digit_in base) s3
          in if ds = [] then (0, str, False)
             else
               let v = int (digits_value base 0 ds);
                   sv = (if negative then - v else v)
               in if LLONG_MAX < sv then (LLONG_MAX, rest, True)
                  else if sv < LLONG_MIN then (LLONG_MIN, rest, True)
                  else (sv, rest, False))"

text \<open>
  \<^verbatim>\<open>strtost\<close>: the status and the value left in \<^verbatim>\<open>*maybe_val\<close>, which is 0 on an error.
\<close>

definition strtost :: "string \<Rightarrow> nat \<Rightarrow> pmix_status \<times> size_t" where
  "strtost str base =
     (case strtoll str base of
        (v, end_text, erange) \<Rightarrow>
          if (erange \<and> v = LLONG_MAX) \<or> (erange \<and> v = LLONG_MIN) \<or> end_text \<noteq> []
          then (PMIX_ERROR, 0)
          else (PMIX_SUCCESS, word_of_int v))"

subsection \<open>Connection information\<close>

text \<open>
  Modelled from the spec: the macros \<^verbatim>\<open>PMIX_BFROPS_PACK\<close> and \<^verbatim>\<open>PMIX_BFROPS_UNPACK\<close>, the
  generic pack/unpack codec for tagged key/value pairs over a byte buffer. A pair packed with
  success is what a later unpack delivers, in the order of packing; unpacking an exhausted
  buffer gives the status "read past end of buffer"; an entry \<open>Inl rc\<close> of a buffer is a
  place where the codec fails with the error status \<open>rc\<close>. The loops below unpack by taking
  the head of the buffer.
\<close>

definition bfrops_pack_string ::
    "collaborators \<Rightarrow> seg_blob_buffer \<Rightarrow> string \<Rightarrow> string \<Rightarrow> pmix_status \<times> seg_blob_buffer" where
  "bfrops_pack_string env buffer k v =
     (case bfrops_pack_kval env \<lparr>key = k, val = PMIX_STRING v\<rparr> of
        (rc, nbytes) \<Rightarrow>
          if rc = PMIX_SUCCESS then (rc, buffer @ [Inr (k, v)]) else (rc, buffer))"

text \<open>
  Modelled from the spec: the enumeration \<^verbatim>\<open>pmix_gds_shmem_job_shmem_id_t\<close> of
  \<^verbatim>\<open>gds_shmem.h\<close>, numbered from 0 in the order job, modex, invalid. A number that is no
  enumerator is treated by every \<^verbatim>\<open>switch\<close> of the file as the invalid role is, and the
  cast maps it there.
\<close>

definition size_t_of_shmem_id :: "pmix_gds_shmem_job_shmem_id \<Rightarrow> size_t" where
  "size_t_of_shmem_id shmem_id =
     (case shmem_id of
        PMIX_GDS_SHMEM_JOB_ID \<Rightarrow> 0
      | PMIX_GDS_SHMEM_MODEX_ID \<Rightarrow> 1
      | PMIX_GDS_SHMEM_INVALID_ID \<Rightarrow> 2)"

definition shmem_id_of_size_t :: "size_t \<Rightarrow> pmix_gds_shmem_job_shmem_id" where
  "shmem_id_of_size_t w =
     (if w = 0 then PMIX_GDS_SHMEM_JOB_ID
      else if w = 1 then PMIX_GDS_SHMEM_MODEX_ID
      else PMIX_GDS_SHMEM_INVALID_ID)"

text \<open>
  \<^verbatim>\<open>pack_shmem_connection_info\<close>: the status and the buffer with what was packed before
  the first failure.
\<close>

definition pack_shmem_connection_info ::
    "collaborators \<Rightarrow> pmix_gds_shmem_job \<Rightarrow> pmix_gds_shmem_job_shmem_id \<Rightarrow> seg_blob_buffer
      \<Rightarrow> pmix_status \<times> seg_blob_buffer" where
  "pack_shmem_connection_info env job shmem_id buffer =
     (case pmix_gds_shmem_get_job_shmem_by_id job shmem_id of
        Inl rc \<Rightarrow> (rc, buffer)
      | Inr shmem0 \<Rightarrow>
          (case bfrops_pack_string env buffer SHMEM_SEG_NSID_KEY (nspace_id job) of
             (rc1, b1) \<Rightarrow>
               if PMIX_SUCCESS \<noteq> rc1 then (rc1, b1)
               else if asprintf_fails env (printf_zd (size_t_of_shmem_id shmem_id))
               then (PMIX_ERR_NOMEM, b1)
               else
                 (case bfrops_pack_string env b1 SHMEM_SEG_SMID_KEY
                         (printf_zd (size_t_of_shmem_id shmem_id)) of
                    (rc2, b2) \<Rightarrow>
                      if PMIX_SUCCESS \<noteq> rc2 then (rc2, b2)
                      else
                        (case bfrops_pack_string env b2 SHMEM_SEG_PATH_KEY
                                (backing_path shmem0) of
                           (rc3, b3) \<Rightarrow>
                             if PMIX_SUCCESS \<noteq> rc3 then (rc3, b3)
                             else if asprintf_fails env (printf_zx (size_shmem shmem0))
                             then (PMIX_ERR_NOMEM, b3)
                             else
                               (case bfrops_pack_string env b3 SHMEM_SEG_SIZE_KEY
                                       (printf_zx (size_shmem shmem0)) of
                                  (rc4, b4) \<Rightarrow>
                                    if PMIX_SUCCESS \<noteq> rc4 then (rc4, b4)
                                    else if asprintf_fails env
                                              (printf_zx (base_address shmem0))
                                    then (PMIX_ERR_NOMEM, b4)
                                    else bfrops_pack_string env b4 SHMEM_SEG_ADDR_KEY
                                           (printf_zx (base_address shmem0)))))))"

text \<open>
  The loop of \<^verbatim>\<open>unpack_shmem_connection_info\<close>: the status it ends with and the unpacked
  values at that point.
\<close>

fun unpack_shmem_connection_info_loop ::
    "collaborators \<Rightarrow> seg_blob_buffer \<Rightarrow> pmix_gds_shmem_unpacked_seg_blob
      \<Rightarrow> pmix_status \<times> pmix_gds_shmem_unpacked_seg_blob" where
  "unpack_shmem_connection_info_loop env [] usb =
     (PMIX_ERR_UNPACK_READ_PAST_END_OF_BUFFER, usb)"
| "unpack_shmem_connection_info_loop env (Inl rc # buffer) usb = (rc, usb)"
| "unpack_shmem_connection_info_loop env (Inr (k, v) # buffer) usb =
     (if PMIX_CHECK_KEY k SHMEM_SEG_NSID_KEY then
        (if asprintf_fails env v then (PMIX_ERR_NOMEM, usb)
         else unpack_shmem_connection_info_loop env buffer (usb\<lparr>nsid := Some v\<rparr>))
      else if PMIX_CHECK_KEY k SHMEM_SEG_SMID_KEY then
        (case strtost v 10 of
           (rc, st_shmem_id) \<Rightarrow>
             if PMIX_SUCCESS \<noteq> rc then (rc, usb)
             else unpack_shmem_connection_info_loop env buffer
                    (usb\<lparr>smid := shmem_id_of_size_t st_shmem_id\<rparr>))
      else if PMIX_CHECK_KEY k SHMEM_SEG_PATH_KEY then
        (if asprintf_fails env v then (PMIX_ERR_NOMEM, usb)
         else unpack_shmem_connection_info_loop env buffer (usb\<lparr>seg_path := Some v\<rparr>))
      else if PMIX_CHECK_KEY k SHMEM_SEG_SIZE_KEY then
        (case strtost v 16 of
           (rc, n) \<Rightarrow>
             if PMIX_SUCCESS \<noteq> rc then (rc, usb\<lparr>seg_size := n\<rparr>)
             else unpack_shmem_connection_info_loop env buffer (usb\<lparr>seg_size := n\<rparr>))
      else if PMIX_CHECK_KEY k SHMEM_SEG_ADDR_KEY then
        (case strtost v 16 of
           (rc, n) \<Rightarrow>
             if PMIX_SUCCESS \<noteq> rc then (rc, usb\<lparr>seg_addr := n\<rparr>)
             else unpack_shmem_connection_info_loop env buffer (usb\<lparr>seg_addr := n\<rparr>))
      else (PMIX_ERR_BAD_PARAM, usb))"

definition unpack_shmem_connection_info ::
    "collaborators \<Rightarrow> pmix_kval \<Rightarrow> pmix_gds_shmem_unpacked_seg_blob
      \<Rightarrow> pmix_status \<times> pmix_gds_shmem_unpacked_seg_blob" where
  "unpack_shmem_connection_info env kvbo usb =
     (case val kvbo of
        PMIX_BYTE_OBJECT buffer \<Rightarrow>
          (case unpack_shmem_connection_info_loop env buffer usb of
             (rc, usb') \<Rightarrow>
               if PMIX_ERR_UNPACK_READ_PAST_END_OF_BUFFER \<noteq> rc
               then (PMIX_ERR_UNPACK_FAILURE, usb')
               else (PMIX_SUCCESS, usb'))
      | _ \<Rightarrow> (PMIX_ERR_TYPE_MISMATCH, usb))"

subsection \<open>Storing job information on a client\<close>

text \<open>
  \<^verbatim>\<open>job_construct\<close>, with the segment objects as \<^verbatim>\<open>PMIX_NEW(pmix_shmem_t)\<close> leaves them.
\<close>

definition pmix_shmem_construct :: pmix_shmem where
  "pmix_shmem_construct = \<lparr>backing_path = [], size_shmem = 0, base_address = NULL\<rparr>"

definition job_construct :: pmix_gds_shmem_job where
  "job_construct =
     \<lparr>nspace_id = [], nspace_nprocs = 0, shmem_status = {}, shmem = pmix_shmem_construct,
      smdata = NULL, modex_shmem_status = {}, modex_shmem = pmix_shmem_construct,
      smmodex = NULL\<rparr>"

text \<open>
  Modelled from the spec: \<^verbatim>\<open>pmix_gds_shmem_get_job_tracker\<close> of \<^verbatim>\<open>gds_shmem_utils.c\<close>,
  which finds the tracker of a namespace in the list of the component or, when asked to,
  creates it and appends it. The result is the position of the tracker in the list.
\<close>

fun job_tracker_index :: "string \<Rightarrow> pmix_gds_shmem_job list \<Rightarrow> nat option" where
  "job_tracker_index nspace [] = None"
| "job_tracker_index nspace (ji # jobs) =
     (if nspace = nspace_id ji then Some 0
      else (case job_tracker_index nspace jobs of None \<Rightarrow> None | Some i \<Rightarrow> Some (Suc i)))"

definition pmix_gds_shmem_get_job_tracker ::
    "string \<Rightarrow> bool \<Rightarrow> pmix_gds_shmem_job list \<Rightarrow> (pmix_status + nat) \<times> pmix_gds_shmem_job list" where
  "pmix_gds_shmem_get_job_tracker nspace create jobs =
     (case job_tracker_index nspace jobs of
        Some i \<Rightarrow> (Inr i, jobs)
      | None \<Rightarrow>
          if create then (Inr (length jobs), jobs @ [job_construct\<lparr>nspace_id := nspace\<rparr>])
          else (Inl PMIX_ERR_NOT_FOUND, jobs))"

text \<open>
  \<^verbatim>\<open>unpack_shmem_seg_blob_and_attach_if_necessary\<close> on the list of trackers. A blob without
  a namespace entry leaves \<^verbatim>\<open>usb.nsid\<close> \<^verbatim>\<open>NULL\<close>, and the lookup of the tracker reads through
  it, which ends the process.
\<close>

definition unpack_shmem_seg_blob_and_attach_if_necessary ::
    "collaborators \<Rightarrow> pmix_gds_shmem_job list \<Rightarrow> pmix_kval
      \<Rightarrow> (pmix_status \<times> pmix_gds_shmem_job list \<times> event list) outcome" where
  "unpack_shmem_seg_blob_and_attach_if_necessary env jobs kvbo =
     (case unpack_shmem_connection_info env kvbo unpacked_seg_blob_construct of
        (rc, usb) \<Rightarrow>
          if PMIX_SUCCESS \<noteq> rc then Returned (rc, jobs, [])
          else
            (case nsid usb of
               None \<Rightarrow> Aborted
             | Some ns \<Rightarrow>
                 (case pmix_gds_shmem_get_job_tracker ns True jobs of
                    (Inl rc1, jobs1) \<Rightarrow> Returned (rc1, jobs1, [])
                  | (Inr i, jobs1) \<Rightarrow>
                      let job = jobs1 ! i
                      in if pmix_gds_shmem_has_status job (smid usb) PMIX_GDS_SHMEM_ATTACHED
                         then Returned (PMIX_SUCCESS, jobs1, [])
                         else
                           (case shmem_segment_attach_and_init env job usb of
                              Aborted \<Rightarrow> Aborted
                            | Returned (rc2, job', ev) \<Rightarrow>
                                Returned (rc2, jobs1[i := job'], ev)))))"

text \<open>
  The loop of \<^verbatim>\<open>store_job_info\<close> over the reply buffer: the status it ends with, the
  trackers and the calls made.
\<close>

fun store_job_info_loop ::
    "collaborators \<Rightarrow> pmix_buffer \<Rightarrow> pmix_gds_shmem_job list \<Rightarrow> event list
      \<Rightarrow> (pmix_status \<times> pmix_gds_shmem_job list \<times> event list) outcome" where
  "store_job_info_loop env [] jobs ev =
     Returned (PMIX_ERR_UNPACK_READ_PAST_END_OF_BUFFER, jobs, ev)"
| "store_job_info_loop env (Inl rc # buff) jobs ev = Returned (rc, jobs, ev)"
| "store_job_info_loop env (Inr kval # buff) jobs ev =
     (if PMIX_CHECK_KEY (key kval) SHMEM_SEG_BLOB_KEY then
        (case unpack_shmem_seg_blob_and_attach_if_necessary env jobs kval of
           Aborted \<Rightarrow> Aborted
         | Returned (rc, jobs', ev') \<Rightarrow>
             if PMIX_SUCCESS \<noteq> rc then Returned (rc, jobs', ev @ ev')
             else store_job_info_loop env buff jobs' (ev @ ev'))
      else if PMIX_CHECK_KEY (key kval) PMIX_SESSION_INFO_ARRAY
              \<or> PMIX_CHECK_KEY (key kval) PMIX_NODE_INFO_ARRAY
              \<or> PMIX_CHECK_KEY (key kval) PMIX_APP_INFO_ARRAY
      then store_job_info_loop env buff jobs ev
      else Returned (PMIX_ERR_BAD_PARAM, jobs, ev))"

definition store_job_info ::
    "collaborators \<Rightarrow> string \<Rightarrow> pmix_buffer \<Rightarrow> pmix_gds_shmem_job list
      \<Rightarrow> (pmix_status \<times> pmix_gds_shmem_job list \<times> event list) outcome" where
  "store_job_info env nspace buff jobs =
     (case store_job_info_loop env buff jobs [] of
        Aborted \<Rightarrow> Aborted
      | Returned (rc, jobs', ev) \<Rightarrow>
          if PMIX_ERR_UNPACK_READ_PAST_END_OF_BUFFER \<noteq> rc
          then Returned (PMIX_ERR_UNPACK_FAILURE, jobs', ev)
          else Returned (PMIX_SUCCESS, jobs', ev))"

subsection \<open>Sample collaborators and trackers\<close>

text \<open>
  Concrete values on which the theorems below are instantiated: a node with pages of 4096
  bytes whose kernel maps a segment where it is asked to and whose scaling of a size by
  \<open>m * 2 ^ e\<close> is exact up to truncation, with the multiplier 1; the same node with a kernel
  that maps 4096 bytes further up; and trackers of the namespace \<open>nsA\<close>.
\<close>

definition sample_shmem :: pmix_shmem where
  "sample_shmem = \<lparr>backing_path = [], size_shmem = 0, base_address = 0\<rparr>"

definition sample_job :: pmix_gds_shmem_job where
  "sample_job =
     \<lparr>nspace_id = ''nsA'', nspace_nprocs = 4, shmem_status = {}, shmem = sample_shmem,
      smdata = 0, modex_shmem_status = {}, modex_shmem = sample_shmem, smmodex = 0\<rparr>"

definition sample_env :: collaborators where
  "sample_env =
     \<lparr>sysconf_page_size = 4096,
      pmix_vmem_find_hole = (\<lambda>sz. (PMIX_SUCCESS, 0x7f0000000000)),
      base_tmpdir = ''/tmp'',
      package_name = ''pmix'',
      hostname = ''node0'',
      getpid = 4242,
      path_max = 4096,
      pmix_shmem_segment_create =
        (\<lambda>s sz p. (PMIX_SUCCESS, s\<lparr>backing_path := p, size_shmem := sz\<rparr>)),
      pmix_shmem_segment_attach = (\<lambda>s a. (PMIX_SUCCESS, a, s\<lparr>base_address := a\<rparr>)),
      pmix_shmem_segment_detach = (\<lambda>s. s\<lparr>base_address := 0\<rparr>),
      ht_capacity_of_init = (\<lambda>n. 2 * n + 1),
      pmix_hash_table_sizeof_hash_element = 32,
      sizeof_pmix_hash_table_t = 96,
      sizeof_pmix_list_t = 64,
      sizeof_pmix_kval_t = 48,
      sizeof_pmix_value_t = 32,
      sizeof_pmix_tma_t = 56,
      sizeof_session = 40,
      sizeof_smdata = 128,
      sizeof_smmodex = 96,
      bfrops_pack_kval = (\<lambda>kv. (PMIX_SUCCESS, word_of_nat (length (key kv)) + 16)),
      asprintf_fails = (\<lambda>s. False),
      size_times_float =
        (\<lambda>n (m, e). word_of_int ((uint n * m * 2 ^ nat e) div 2 ^ nat (- e))),
      pmix_gds_shmem_segment_size_multiplier = (1, 0)\<rparr>"

definition sample_env_elsewhere :: collaborators where
  "sample_env_elsewhere =
     sample_env\<lparr>pmix_shmem_segment_attach :=
       (\<lambda>s a. (PMIX_SUCCESS, a + 4096, s\<lparr>base_address := a + 4096\<rparr>))\<rparr>"

definition sample_seginfo :: pmix_gds_shmem_unpacked_seg_blob where
  "sample_seginfo =
     \<lparr>nsid = Some ''nsA'', smid = PMIX_GDS_SHMEM_JOB_ID,
      seg_path = Some ''/tmp/pmix-gds-shmem.node0-nsA.jobdata.4242'',
      seg_size = 8192, seg_addr = 0x7f0000000000\<rparr>"

definition sample_kvs :: "pmix_kval list" where
  "sample_kvs =
     [\<lparr>key = PMIX_PROC_DATA, val = PMIX_DATA_ARRAY 3\<rparr>,
      \<lparr>key = PMIX_NODE_INFO_ARRAY, val = PMIX_DATA_ARRAY 5\<rparr>,
      \<lparr>key = ''pmix.jobid'', val = PMIX_STRING ''job-7''\<rparr>]"


definition sample_job_ready :: pmix_gds_shmem_job where
  "sample_job_ready =
     sample_job\<lparr>shmem := \<lparr>backing_path = ''/tmp/pmix-gds-shmem.node0-nsA.jobdata.4242'',
                          size_shmem = 8192, base_address = 0x7f0000000000\<rparr>,
                shmem_status := {PMIX_GDS_SHMEM_RELEASE, PMIX_GDS_SHMEM_ATTACHED,
                                 PMIX_GDS_SHMEM_READY_FOR_USE},
                smdata := 0x7f0000000000\<rparr>"

definition sample_job_high :: pmix_gds_shmem_job where
  "sample_job_high =
     sample_job\<lparr>shmem := \<lparr>backing_path = ''/tmp/pmix-gds-shmem.node0-nsA.jobdata.4242'',
                          size_shmem = 8192, base_address = 0x8000000000000000\<rparr>,
                shmem_status := {PMIX_GDS_SHMEM_RELEASE, PMIX_GDS_SHMEM_ATTACHED,
                                 PMIX_GDS_SHMEM_READY_FOR_USE},
                smdata := 0x8000000000000000\<rparr>"

section \<open>Properties\<close>

subsection \<open>The arena\<close>

lemma addr_align_align8: "addr_align base sz = align8 (base + sz)"
  by (simp add: addr_align_def align8_def)

lemma align8_dvd: "8 dvd unat (align8 p)"
proof -
  have "take_bit 3 (align8 p) = 0"
    by (rule bit_word_eqI) (auto simp add: align8_def bit_simps)
  then have "take_bit 3 (unat (align8 p)) = 0"
    by (simp add: unsigned_take_bit_eq [symmetric])
  then show ?thesis
    by (simp add: take_bit_eq_mod mod_eq_0_iff_dvd)
qed

lemma tma_malloc_eq:
  "tma_malloc tma n = (data_ptr tma, tma\<lparr>data_ptr := align8 (data_ptr tma + n)\<rparr>)"
  by (simp add: tma_malloc_def Let_def addr_align_align8)

lemma tma_mallocs_length: "length (fst (tma_mallocs tma ns)) = length ns"
  by (induction ns arbitrary: tma) (simp_all add: split_def Let_def)

lemma tma_mallocs_hd:
  "ns \<noteq> [] \<Longrightarrow> fst (tma_mallocs tma ns) ! 0 = data_ptr tma"
  by (cases ns) (simp_all add: split_def Let_def tma_malloc_eq)

lemma tma_mallocs_succ:
  "Suc i < length ns \<Longrightarrow>
   fst (tma_mallocs tma ns) ! Suc i = align8 (fst (tma_mallocs tma ns) ! i + ns ! i)"
proof (induction ns arbitrary: tma i)
  case Nil
  then show ?case by simp
next
  case (Cons n ns)
  show ?case
  proof (cases i)
    case 0
    with Cons.prems have "ns \<noteq> []" by auto
    with 0 show ?thesis
      by (simp add: split_def Let_def tma_mallocs_hd tma_malloc_eq)
  next
    case (Suc j)
    with Cons.prems have "Suc j < length ns" by simp
    from Cons.IH [OF this] Suc show ?thesis
      by (simp add: split_def Let_def)
  qed
qed

lemma tma_mallocs_aligned:
  "8 dvd unat (data_ptr tma) \<Longrightarrow> a \<in> set (fst (tma_mallocs tma ns)) \<Longrightarrow> 8 dvd unat a"
proof (induction ns arbitrary: tma)
  case Nil
  then show ?case by simp
next
  case (Cons n ns)
  let ?tma' = "tma\<lparr>data_ptr := align8 (data_ptr tma + n)\<rparr>"
  from Cons.prems(2) have "a = data_ptr tma \<or> a \<in> set (fst (tma_mallocs ?tma' ns))"
    by (simp add: split_def Let_def tma_malloc_eq)
  then show ?case
  proof
    assume "a = data_ptr tma"
    with Cons.prems(1) show ?thesis by simp
  next
    assume "a \<in> set (fst (tma_mallocs ?tma' ns))"
    moreover have "8 dvd unat (data_ptr ?tma')"
      by (simp add: align8_dvd)
    ultimately show ?thesis
      by (rule Cons.IH [rotated])
  qed
qed

text \<open>
  Claim C4. An allocation of \<open>n\<close> bytes returns the cursor and moves it to
  \<open>align8 (cursor + n)\<close>; of two successive allocations of one arena the second address is
  \<open>align8\<close> of the first address plus the first size, for a pair of calls and at every
  position of a run of calls; when the cursor starts at a multiple of 8, every address a run
  of allocations returns is a multiple of 8.
\<close>

theorem tma_malloc_cursor:
  "tma_malloc tma n = (data_ptr tma, tma\<lparr>data_ptr := align8 (data_ptr tma + n)\<rparr>)
   \<and> (tma_malloc tma n1 = (a1, tma1) \<and> tma_malloc tma1 n2 = (a2, tma2) \<longrightarrow> a2 = align8 (a1 + n1))
   \<and> length (fst (tma_mallocs tma ns)) = length ns
   \<and> (\<forall>i. Suc i < length ns \<longrightarrow>
         fst (tma_mallocs tma ns) ! Suc i = align8 (fst (tma_mallocs tma ns) ! i + ns ! i))
   \<and> (8 dvd unat (data_ptr tma) \<longrightarrow> (\<forall>a \<in> set (fst (tma_mallocs tma ns)). 8 dvd unat a))"
  using tma_mallocs_aligned [of tma _ ns]
  by (auto simp add: tma_mallocs_length tma_mallocs_succ)
     (auto simp add: tma_malloc_eq)

theorem tma_malloc_cursor_witness:
  "8 dvd unat (data_ptr \<lparr>data_ptr = 4096\<rparr>)
   \<and> tma_malloc \<lparr>data_ptr = 4096\<rparr> 1 = (4096, \<lparr>data_ptr = 4104\<rparr>)
   \<and> tma_malloc \<lparr>data_ptr = 4104\<rparr> 13 = (4104, \<lparr>data_ptr = 4120\<rparr>)
   \<and> fst (tma_mallocs \<lparr>data_ptr = 4096\<rparr> [1, 13, 8]) = [4096, 4104, 4120]
   \<and> 8 dvd unat (4096 :: uintptr_t) \<and> 8 dvd unat (4104 :: uintptr_t)
   \<and> 8 dvd unat (4120 :: uintptr_t)"
proof -
  have h: "8 dvd unat (data_ptr \<lparr>data_ptr = 4096\<rparr>)" by simp
  have e: "tma_malloc \<lparr>data_ptr = 4096\<rparr> 1 = (4096, \<lparr>data_ptr = 4104\<rparr>)"
          "tma_malloc \<lparr>data_ptr = 4104\<rparr> 13 = (4104, \<lparr>data_ptr = 4120\<rparr>)"
          "tma_malloc \<lparr>data_ptr = 4120\<rparr> 8 = (4120, \<lparr>data_ptr = 4128\<rparr>)"
    by (simp_all add: tma_malloc_def addr_align_def)
  from tma_malloc_cursor [of "\<lparr>data_ptr = 4096\<rparr>" 1 1 4096 "\<lparr>data_ptr = 4104\<rparr>" 13 4104
      "\<lparr>data_ptr = 4120\<rparr>" "[1, 13, 8]"] h e
  show ?thesis by (simp add: e)
qed

text \<open>
  Claim C9, as the code has it. With assertions compiled in, \<^verbatim>\<open>tma_realloc\<close> aborts whatever
  its arguments; compiled with \<^verbatim>\<open>NDEBUG\<close> it returns \<^verbatim>\<open>NULL\<close>. In neither build does it
  return anything but the null pointer.
\<close>

theorem tma_realloc_unsupported:
  "tma_realloc False tma ptr sz = Aborted
   \<and> tma_realloc True tma ptr sz = Returned NULL
   \<and> tma_realloc ndebug tma ptr sz \<in> {Aborted, Returned NULL}"
  by (simp add: tma_realloc_def)

text \<open>
  Claim C9 as stated fails: in a build with \<^verbatim>\<open>NDEBUG\<close> the call does not abort, it returns.
\<close>

theorem tma_realloc_counterexample:
  "tma_realloc True \<lparr>data_ptr = 4096\<rparr> 4096 16 \<noteq> Aborted
   \<and> tma_realloc True \<lparr>data_ptr = 4096\<rparr> 4096 16 = Returned 0"
  by (simp add: tma_realloc_def NULL_def)

subsection \<open>Status flags\<close>

lemma has_status_set_status:
  "pmix_gds_shmem_has_status (pmix_gds_shmem_set_status job i f) j g =
     (pmix_gds_shmem_has_status job j g \<or> (i = j \<and> f = g \<and> i \<noteq> PMIX_GDS_SHMEM_INVALID_ID))"
  by (cases i; cases j) (auto simp add: pmix_gds_shmem_has_status_def pmix_gds_shmem_set_status_def)

lemma has_status_put_job_shmem:
  "pmix_gds_shmem_has_status (put_job_shmem job i s) j g = pmix_gds_shmem_has_status job j g"
  by (cases i; cases j) (simp_all add: pmix_gds_shmem_has_status_def put_job_shmem_def)

lemma shmem_attach_cases:
  assumes "shmem_attach env job i req = (rc, job', ev)"
  shows "(rc = PMIX_SUCCESS \<and> i \<noteq> PMIX_GDS_SHMEM_INVALID_ID
          \<and> (\<forall>j g. pmix_gds_shmem_has_status job' j g =
                (pmix_gds_shmem_has_status job j g \<or> (j = i \<and> g = PMIX_GDS_SHMEM_ATTACHED))))
       \<or> (rc \<noteq> PMIX_SUCCESS
          \<and> (\<forall>j g. pmix_gds_shmem_has_status job' j g = pmix_gds_shmem_has_status job j g))"
  using assms
  by (cases i)
     (auto simp add: shmem_attach_def pmix_gds_shmem_get_job_shmem_by_id_def Let_def
        has_status_set_status has_status_put_job_shmem split: prod.splits if_splits)

lemma put_job_shmem_twice:
  "put_job_shmem (put_job_shmem job i s) i s' = put_job_shmem job i s'"
  by (cases i) (simp_all add: put_job_shmem_def)

lemma shmem_attach_events:
  assumes "shmem_attach env job i req = (rc, job', ev)"
  shows "(rc = PMIX_SUCCESS \<and> ev = [Segment_attach i req])
       \<or> (rc \<noteq> PMIX_SUCCESS \<and> (\<forall>j n p. Segment_create j n p \<notin> set ev)
           \<and> (\<forall>e \<in> set ev. segment_event e))"
  using assms
  by (cases i)
     (auto simp add: shmem_attach_def pmix_gds_shmem_get_job_shmem_by_id_def Let_def
        split: prod.splits if_splits)

lemma create_and_attach_cases:
  assumes "shmem_segment_create_and_attach env job i name sz = (rc, job', ev)"
  defines "real \<equiv> sz + pad_amount_to_page (sysconf_page_size env) sz"
  shows "(rc = PMIX_SUCCESS \<and> i \<noteq> PMIX_GDS_SHMEM_INVALID_ID
          \<and> (\<forall>j g. pmix_gds_shmem_has_status job' j g =
                (pmix_gds_shmem_has_status job j g
                 \<or> (j = i \<and> (g = PMIX_GDS_SHMEM_ATTACHED \<or> g = PMIX_GDS_SHMEM_RELEASE))))
          \<and> (\<exists>p. ev = [Vmem_find_hole real, Segment_create i real p,
                         Segment_attach i (snd (pmix_vmem_find_hole env real))]))
       \<or> (rc \<noteq> PMIX_SUCCESS
          \<and> (\<forall>j g. pmix_gds_shmem_has_status job' j g = pmix_gds_shmem_has_status job j g)
          \<and> (\<forall>j n p. Segment_create j n p \<in> set ev \<longrightarrow> j = i \<and> n = real)
          \<and> (\<forall>e \<in> set ev. segment_event e))"
proof -
  note defs = shmem_segment_create_and_attach_def shmem_segment_create_and_attach_out_def
    Let_def real_def [symmetric]
  obtain rc0 base where h: "pmix_vmem_find_hole env real = (rc0, base)"
    by force
  show ?thesis
  proof (cases "rc0 = PMIX_SUCCESS")
    case False
    with assms(1) h show ?thesis by (auto simp add: defs)
  next
    case rc0: True
    show ?thesis
    proof (cases "get_shmem_backing_path env job name")
      case None
      with assms(1) h rc0 show ?thesis by (auto simp add: defs)
    next
      case (Some p)
      show ?thesis
      proof (cases "pmix_gds_shmem_get_job_shmem_by_id job i")
        case (Inl rc1)
        then have "rc1 = PMIX_ERROR"
          by (cases i) (simp_all add: pmix_gds_shmem_get_job_shmem_by_id_def)
        with assms(1) h rc0 Some Inl show ?thesis by (auto simp add: defs)
      next
        case (Inr s0)
        obtain rc2 s1 where c: "pmix_shmem_segment_create env s0 real p = (rc2, s1)"
          by force
        show ?thesis
        proof (cases "rc2 = PMIX_SUCCESS")
          case False
          with assms(1) h rc0 Some Inr c show ?thesis
            by (auto simp add: defs has_status_put_job_shmem)
        next
          case rc2: True
          obtain rc3 job2 ev2 where
            a: "shmem_attach env (put_job_shmem job i s1) i base = (rc3, job2, ev2)"
            by (metis prod_cases3)
          from assms(1) h rc0 Some Inr c rc2 a
          have r: "shmem_segment_create_and_attach_out i
                     (rc3, job2, [Vmem_find_hole real, Segment_create i real p] @ ev2)
                   = (rc, job', ev)"
            by (simp add: shmem_segment_create_and_attach_def Let_def real_def [symmetric])
          from shmem_attach_cases [OF a] shmem_attach_events [OF a] r h show ?thesis
            by (auto simp add: shmem_segment_create_and_attach_out_def has_status_put_job_shmem
                  has_status_set_status split: if_splits)
        qed
      qed
    qed
  qed
qed

lemma attach_and_init_status:
  assumes "shmem_segment_attach_and_init env job seginfo = Returned (rc, job', ev)"
  shows "pmix_gds_shmem_has_status job' j g \<longrightarrow>
           pmix_gds_shmem_has_status job j g
           \<or> (j = smid seginfo \<and> (g = PMIX_GDS_SHMEM_ATTACHED \<or> g = PMIX_GDS_SHMEM_READY_FOR_USE))"
proof (cases "pmix_gds_shmem_get_job_shmem_by_id job (smid seginfo)")
  case (Inl e)
  with assms show ?thesis by (simp add: shmem_segment_attach_and_init_def)
next
  case (Inr s0)
  show ?thesis
  proof (cases "seg_path seginfo")
    case None
    with assms Inr show ?thesis by (simp add: shmem_segment_attach_and_init_def)
  next
    case (Some p)
    define job1 where "job1 = put_job_shmem job (smid seginfo)
      (s0\<lparr>backing_path := pmix_string_copy p (path_max env), size_shmem := seg_size seginfo\<rparr>)"
    obtain rc2 job2 ev2 where
      a: "shmem_attach env job1 (smid seginfo) (seg_addr seginfo) = (rc2, job2, ev2)"
      by (metis prod_cases3)
    have s1: "pmix_gds_shmem_has_status job1 j g = pmix_gds_shmem_has_status job j g"
      by (simp add: job1_def has_status_put_job_shmem)
    from assms Inr Some a
    have r: "(if rc2 \<noteq> PMIX_SUCCESS then Returned (rc2, job2, ev2)
              else (case init_client_side_sm_data job2 (smid seginfo) of
                      (rc', job3) \<Rightarrow> Returned (rc', job3, ev2))) = Returned (rc, job', ev)"
      by (simp add: shmem_segment_attach_and_init_def Let_def job1_def [symmetric])
    have i: "pmix_gds_shmem_has_status (snd (init_client_side_sm_data job2 (smid seginfo))) j g
             \<longrightarrow> pmix_gds_shmem_has_status job2 j g
                 \<or> (j = smid seginfo \<and> g = PMIX_GDS_SHMEM_READY_FOR_USE)"
      by (cases "smid seginfo"; cases j)
         (auto simp add: init_client_side_sm_data_def pmix_gds_shmem_has_status_def
            pmix_gds_shmem_set_status_def)
    from shmem_attach_cases [OF a] r i s1 show ?thesis
      by (auto split: if_splits prod.splits)
  qed
qed

lemma attach_and_init_keeps:
  assumes "shmem_segment_attach_and_init env job seginfo = Returned (rc, job', ev)"
      and "pmix_gds_shmem_has_status job j g"
  shows "pmix_gds_shmem_has_status job' j g"
proof (cases "pmix_gds_shmem_get_job_shmem_by_id job (smid seginfo)")
  case (Inl e)
  with assms show ?thesis by (simp add: shmem_segment_attach_and_init_def)
next
  case (Inr s0)
  show ?thesis
  proof (cases "seg_path seginfo")
    case None
    with assms Inr show ?thesis by (simp add: shmem_segment_attach_and_init_def)
  next
    case (Some p)
    define job1 where "job1 = put_job_shmem job (smid seginfo)
      (s0\<lparr>backing_path := pmix_string_copy p (path_max env), size_shmem := seg_size seginfo\<rparr>)"
    obtain rc2 job2 ev2 where
      a: "shmem_attach env job1 (smid seginfo) (seg_addr seginfo) = (rc2, job2, ev2)"
      by (metis prod_cases3)
    have s1: "pmix_gds_shmem_has_status job1 j g"
      using assms(2) by (simp add: job1_def has_status_put_job_shmem)
    from assms(1) Inr Some a
    have r: "(if rc2 \<noteq> PMIX_SUCCESS then Returned (rc2, job2, ev2)
              else (case init_client_side_sm_data job2 (smid seginfo) of
                      (rc', job3) \<Rightarrow> Returned (rc', job3, ev2))) = Returned (rc, job', ev)"
      by (simp add: shmem_segment_attach_and_init_def Let_def job1_def [symmetric])
    have i: "pmix_gds_shmem_has_status job2 j g \<longrightarrow>
             pmix_gds_shmem_has_status (snd (init_client_side_sm_data job2 (smid seginfo))) j g"
      by (cases "smid seginfo"; cases j)
         (auto simp add: init_client_side_sm_data_def pmix_gds_shmem_has_status_def
            pmix_gds_shmem_set_status_def)
    from shmem_attach_cases [OF a] r i s1 show ?thesis
      by (auto split: if_splits prod.splits)
  qed
qed

subsection \<open>The sample node\<close>

lemma sample_path:
  "get_shmem_backing_path sample_env sample_job ''jobdata''
     = Some ''/tmp/pmix-gds-shmem.node0-nsA.jobdata.4242''"
  by (simp add: get_shmem_backing_path_def sample_env_def sample_job_def PMIX_GDS_SHMEM_NAME_def
        printf_d_def print_unsigned.simps digit_char_def Let_def)


lemma pad_4097: "pad_amount_to_page 4096 4097 = 4095"
  by (simp add: pad_amount_to_page_def get_page_size_def)

lemma pad_100: "pad_amount_to_page 4096 100 = 3996"
  by (simp add: pad_amount_to_page_def get_page_size_def)

lemma pad_max: "pad_amount_to_page 4096 18446744073709551615 = 1"
  by (simp add: pad_amount_to_page_def get_page_size_def)

lemma sample_env_simps:
  "sysconf_page_size sample_env = 4096"
  "pmix_vmem_find_hole sample_env n = (PMIX_SUCCESS, 0x7f0000000000)"
  "pmix_shmem_segment_create sample_env s sz p =
     (PMIX_SUCCESS, s\<lparr>backing_path := p, size_shmem := sz\<rparr>)"
  "pmix_shmem_segment_attach sample_env s a = (PMIX_SUCCESS, a, s\<lparr>base_address := a\<rparr>)"
  "pmix_shmem_segment_detach sample_env s = s\<lparr>base_address := 0\<rparr>"
  "path_max sample_env = 4096"
  by (simp_all add: sample_env_def)

lemma sample_job_simps:
  "shmem sample_job = sample_shmem"
  "modex_shmem sample_job = sample_shmem"
  "shmem_status sample_job = {}"
  "modex_shmem_status sample_job = {}"
  "nspace_id sample_job = ''nsA''"
  "nspace_nprocs sample_job = 4"
  by (simp_all add: sample_job_def)

lemma sample_create_ok:
  "shmem_segment_create_and_attach sample_env sample_job PMIX_GDS_SHMEM_JOB_ID ''jobdata'' 4097
   = (PMIX_SUCCESS,
      sample_job\<lparr>shmem := \<lparr>backing_path = ''/tmp/pmix-gds-shmem.node0-nsA.jobdata.4242'',
                  size_shmem = 8192, base_address = 0x7f0000000000\<rparr>,
         shmem_status := {PMIX_GDS_SHMEM_RELEASE, PMIX_GDS_SHMEM_ATTACHED}\<rparr>,
      [Vmem_find_hole 8192,
       Segment_create PMIX_GDS_SHMEM_JOB_ID 8192 ''/tmp/pmix-gds-shmem.node0-nsA.jobdata.4242'',
       Segment_attach PMIX_GDS_SHMEM_JOB_ID 0x7f0000000000])"
  by (simp add: shmem_segment_create_and_attach_def shmem_segment_create_and_attach_out_def
        sample_path pad_4097 Let_def shmem_attach_def pmix_gds_shmem_get_job_shmem_by_id_def
        put_job_shmem_def pmix_gds_shmem_set_status_def sample_env_simps sample_job_simps
        sample_shmem_def)


lemma pad_4096: "pad_amount_to_page 4096 4096 = 0"
  by (simp add: pad_amount_to_page_def get_page_size_def)

lemma sample_attach_and_init:
  "shmem_segment_attach_and_init sample_env sample_job sample_seginfo
   = Returned (PMIX_SUCCESS,
       sample_job\<lparr>shmem := \<lparr>backing_path = ''/tmp/pmix-gds-shmem.node0-nsA.jobdata.4242'',
                  size_shmem = 8192, base_address = 0x7f0000000000\<rparr>,
         smdata := 0x7f0000000000,
         shmem_status := {PMIX_GDS_SHMEM_READY_FOR_USE, PMIX_GDS_SHMEM_ATTACHED}\<rparr>,
       [Segment_attach PMIX_GDS_SHMEM_JOB_ID 0x7f0000000000])"
  by (simp add: shmem_segment_attach_and_init_def sample_seginfo_def Let_def shmem_attach_def
        pmix_gds_shmem_get_job_shmem_by_id_def put_job_shmem_def pmix_gds_shmem_set_status_def
        init_client_side_sm_data_def pmix_string_copy_def
        sample_env_simps sample_job_simps sample_shmem_def)

lemma sample_env_elsewhere_simps:
  "sysconf_page_size sample_env_elsewhere = 4096"
  "pmix_vmem_find_hole sample_env_elsewhere n = (PMIX_SUCCESS, 0x7f0000000000)"
  "pmix_shmem_segment_create sample_env_elsewhere s sz p =
     (PMIX_SUCCESS, s\<lparr>backing_path := p, size_shmem := sz\<rparr>)"
  "pmix_shmem_segment_attach sample_env_elsewhere s a =
     (PMIX_SUCCESS, a + 4096, s\<lparr>base_address := a + 4096\<rparr>)"
  "pmix_shmem_segment_detach sample_env_elsewhere s = s\<lparr>base_address := 0\<rparr>"
  "path_max sample_env_elsewhere = 4096"
  by (simp_all add: sample_env_elsewhere_def sample_env_def)

lemma sample_path_elsewhere:
  "get_shmem_backing_path sample_env_elsewhere sample_job ''jobdata''
     = Some ''/tmp/pmix-gds-shmem.node0-nsA.jobdata.4242''"
  by (simp add: get_shmem_backing_path_def sample_env_elsewhere_def sample_env_def
        sample_job_def PMIX_GDS_SHMEM_NAME_def
        printf_d_def print_unsigned.simps digit_char_def Let_def)

lemma sample_create_elsewhere:
  "shmem_segment_create_and_attach sample_env_elsewhere sample_job PMIX_GDS_SHMEM_JOB_ID
     ''jobdata'' 4097
   = (PMIX_ERROR,
      sample_job\<lparr>shmem := \<lparr>backing_path = ''/tmp/pmix-gds-shmem.node0-nsA.jobdata.4242'',
                  size_shmem = 8192, base_address = 0\<rparr>\<rparr>,
      [Vmem_find_hole 8192,
       Segment_create PMIX_GDS_SHMEM_JOB_ID 8192 ''/tmp/pmix-gds-shmem.node0-nsA.jobdata.4242'',
       Segment_attach PMIX_GDS_SHMEM_JOB_ID 0x7f0000000000,
       Show_help ''shmem-segment-attach:address-mismatch'',
       Segment_detach PMIX_GDS_SHMEM_JOB_ID])"
  by (simp add: shmem_segment_create_and_attach_def shmem_segment_create_and_attach_out_def
        sample_path_elsewhere pad_4097 Let_def shmem_attach_def
        pmix_gds_shmem_get_job_shmem_by_id_def
        put_job_shmem_def pmix_gds_shmem_set_status_def sample_env_elsewhere_simps
        sample_job_simps sample_shmem_def)

subsection \<open>Attaching at the requested address\<close>

text \<open>
  Claim C8. Let the role be valid and the shared-memory primitive map the file with success.
  If the address it mapped at differs from the requested one, \<^verbatim>\<open>shmem_attach\<close> shows the
  address-mismatch help text, detaches the segment, returns \<open>PMIX_ERROR\<close> and leaves every
  status flag as it was, so it sets no \<open>ATTACHED\<close>; if the two addresses are equal it returns
  success with \<open>ATTACHED\<close> set for the role.
\<close>

theorem shmem_attach_address_check:
  assumes "pmix_gds_shmem_get_job_shmem_by_id job i = Inr s"
      and "pmix_shmem_segment_attach env s req_addr = (PMIX_SUCCESS, mmap_addr, s')"
  shows "(mmap_addr \<noteq> req_addr \<longrightarrow>
            shmem_attach env job i req_addr =
              (PMIX_ERROR, put_job_shmem job i (pmix_shmem_segment_detach env s'),
               [Segment_attach i req_addr, Show_help ''shmem-segment-attach:address-mismatch'',
                Segment_detach i])
            \<and> (\<forall>j g. pmix_gds_shmem_has_status (fst (snd (shmem_attach env job i req_addr))) j g =
                  pmix_gds_shmem_has_status job j g))
       \<and> (mmap_addr = req_addr \<longrightarrow>
            shmem_attach env job i req_addr =
              (PMIX_SUCCESS,
               pmix_gds_shmem_set_status (put_job_shmem job i s') i PMIX_GDS_SHMEM_ATTACHED,
               [Segment_attach i req_addr])
            \<and> pmix_gds_shmem_has_status (fst (snd (shmem_attach env job i req_addr))) i
                  PMIX_GDS_SHMEM_ATTACHED)"
proof -
  from assms(1) have i: "i \<noteq> PMIX_GDS_SHMEM_INVALID_ID"
    by (auto simp add: pmix_gds_shmem_get_job_shmem_by_id_def)
  from assms show ?thesis
    by (simp add: shmem_attach_def Let_def put_job_shmem_twice has_status_put_job_shmem
          has_status_set_status i)
qed

theorem shmem_attach_address_check_witness:
  "pmix_gds_shmem_get_job_shmem_by_id sample_job PMIX_GDS_SHMEM_JOB_ID = Inr sample_shmem
   \<and> pmix_shmem_segment_attach sample_env_elsewhere sample_shmem 0x7f0000000000
       = (PMIX_SUCCESS, 0x7f0000001000, sample_shmem\<lparr>base_address := 0x7f0000001000\<rparr>)
   \<and> fst (shmem_attach sample_env_elsewhere sample_job PMIX_GDS_SHMEM_JOB_ID 0x7f0000000000)
       = PMIX_ERROR
   \<and> snd (snd (shmem_attach sample_env_elsewhere sample_job PMIX_GDS_SHMEM_JOB_ID 0x7f0000000000))
       = [Segment_attach PMIX_GDS_SHMEM_JOB_ID 0x7f0000000000,
          Show_help ''shmem-segment-attach:address-mismatch'',
          Segment_detach PMIX_GDS_SHMEM_JOB_ID]
   \<and> \<not> pmix_gds_shmem_has_status
         (fst (snd (shmem_attach sample_env_elsewhere sample_job PMIX_GDS_SHMEM_JOB_ID
            0x7f0000000000)))
         PMIX_GDS_SHMEM_JOB_ID PMIX_GDS_SHMEM_ATTACHED
   \<and> pmix_shmem_segment_attach sample_env sample_shmem 0x7f0000000000
       = (PMIX_SUCCESS, 0x7f0000000000, sample_shmem\<lparr>base_address := 0x7f0000000000\<rparr>)
   \<and> fst (shmem_attach sample_env sample_job PMIX_GDS_SHMEM_JOB_ID 0x7f0000000000)
       = PMIX_SUCCESS
   \<and> pmix_gds_shmem_has_status
         (fst (snd (shmem_attach sample_env sample_job PMIX_GDS_SHMEM_JOB_ID 0x7f0000000000)))
         PMIX_GDS_SHMEM_JOB_ID PMIX_GDS_SHMEM_ATTACHED"
proof -
  have g: "pmix_gds_shmem_get_job_shmem_by_id sample_job PMIX_GDS_SHMEM_JOB_ID = Inr sample_shmem"
    by (simp add: pmix_gds_shmem_get_job_shmem_by_id_def sample_job_def)
  have a1: "pmix_shmem_segment_attach sample_env_elsewhere sample_shmem 0x7f0000000000
       = (PMIX_SUCCESS, 0x7f0000001000, sample_shmem\<lparr>base_address := 0x7f0000001000\<rparr>)"
    by (simp add: sample_env_elsewhere_def sample_env_def)
  have a2: "pmix_shmem_segment_attach sample_env sample_shmem 0x7f0000000000
       = (PMIX_SUCCESS, 0x7f0000000000, sample_shmem\<lparr>base_address := 0x7f0000000000\<rparr>)"
    by (simp add: sample_env_def)
  have n: "\<not> pmix_gds_shmem_has_status sample_job PMIX_GDS_SHMEM_JOB_ID PMIX_GDS_SHMEM_ATTACHED"
    by (simp add: pmix_gds_shmem_has_status_def sample_job_def)
  from shmem_attach_address_check [OF g a1] shmem_attach_address_check [OF g a2] g a1 a2 n
  show ?thesis by (simp add: has_status_put_job_shmem has_status_set_status)
qed

subsection \<open>The release flag\<close>

text \<open>
  Claim C7, as the code has it. \<^verbatim>\<open>shmem_segment_create_and_attach\<close> sets \<open>RELEASE\<close> (and has
  set \<open>ATTACHED\<close>) for the role when it returns success, that is when the hole was found, the
  path built, the backing file created and the segment attached at the hole; when it returns
  an error, also after the backing file was created, \<open>RELEASE\<close> is as it was for every role.
  The client path \<^verbatim>\<open>shmem_segment_attach_and_init\<close> never changes \<open>RELEASE\<close> and adds no flag
  other than \<open>ATTACHED\<close> and \<open>READY_FOR_USE\<close>.
\<close>

theorem release_flag_latched:
  "(case shmem_segment_create_and_attach env job i name sz of
      (rc, job', ev) \<Rightarrow>
        (rc = PMIX_SUCCESS \<longrightarrow>
           pmix_gds_shmem_has_status job' i PMIX_GDS_SHMEM_RELEASE
           \<and> pmix_gds_shmem_has_status job' i PMIX_GDS_SHMEM_ATTACHED)
      \<and> (rc \<noteq> PMIX_SUCCESS \<longrightarrow>
           (\<forall>j. pmix_gds_shmem_has_status job' j PMIX_GDS_SHMEM_RELEASE =
                 pmix_gds_shmem_has_status job j PMIX_GDS_SHMEM_RELEASE)))
   \<and> (case shmem_segment_attach_and_init env job seginfo of
        Aborted \<Rightarrow> True
      | Returned (rc, job', ev) \<Rightarrow>
          (\<forall>j. pmix_gds_shmem_has_status job' j PMIX_GDS_SHMEM_RELEASE =
                pmix_gds_shmem_has_status job j PMIX_GDS_SHMEM_RELEASE)
        \<and> (\<forall>j g. pmix_gds_shmem_has_status job' j g \<longrightarrow>
                pmix_gds_shmem_has_status job j g
                \<or> g = PMIX_GDS_SHMEM_ATTACHED \<or> g = PMIX_GDS_SHMEM_READY_FOR_USE))"
proof -
  obtain rc job' ev where
    c: "shmem_segment_create_and_attach env job i name sz = (rc, job', ev)"
    by (metis prod_cases3)
  from create_and_attach_cases [OF c] have server:
    "(rc = PMIX_SUCCESS \<longrightarrow>
        pmix_gds_shmem_has_status job' i PMIX_GDS_SHMEM_RELEASE
        \<and> pmix_gds_shmem_has_status job' i PMIX_GDS_SHMEM_ATTACHED)
     \<and> (rc \<noteq> PMIX_SUCCESS \<longrightarrow>
        (\<forall>j. pmix_gds_shmem_has_status job' j PMIX_GDS_SHMEM_RELEASE =
              pmix_gds_shmem_has_status job j PMIX_GDS_SHMEM_RELEASE))"
    by auto
  have client:
    "case shmem_segment_attach_and_init env job seginfo of
        Aborted \<Rightarrow> True
      | Returned (rc, job', ev) \<Rightarrow>
          (\<forall>j. pmix_gds_shmem_has_status job' j PMIX_GDS_SHMEM_RELEASE =
                pmix_gds_shmem_has_status job j PMIX_GDS_SHMEM_RELEASE)
        \<and> (\<forall>j g. pmix_gds_shmem_has_status job' j g \<longrightarrow>
                pmix_gds_shmem_has_status job j g
                \<or> g = PMIX_GDS_SHMEM_ATTACHED \<or> g = PMIX_GDS_SHMEM_READY_FOR_USE)"
  proof (cases "shmem_segment_attach_and_init env job seginfo")
    case Aborted
    then show ?thesis by simp
  next
    case (Returned r)
    obtain rc2 job2 ev2 where r: "r = (rc2, job2, ev2)"
      by (metis prod_cases3)
    from Returned r attach_and_init_status [of env job seginfo rc2 job2 ev2]
      attach_and_init_keeps [of env job seginfo rc2 job2 ev2]
    show ?thesis by auto
  qed
  from server client c show ?thesis by simp
qed

theorem release_flag_latched_witness:
  "fst (shmem_segment_create_and_attach sample_env sample_job PMIX_GDS_SHMEM_JOB_ID
          ''jobdata'' 4097) = PMIX_SUCCESS
   \<and> pmix_gds_shmem_has_status
        (fst (snd (shmem_segment_create_and_attach sample_env sample_job PMIX_GDS_SHMEM_JOB_ID
           ''jobdata'' 4097)))
        PMIX_GDS_SHMEM_JOB_ID PMIX_GDS_SHMEM_RELEASE
   \<and> fst (shmem_segment_create_and_attach sample_env_elsewhere sample_job PMIX_GDS_SHMEM_JOB_ID
          ''jobdata'' 4097) \<noteq> PMIX_SUCCESS
   \<and> \<not> pmix_gds_shmem_has_status
        (fst (snd (shmem_segment_create_and_attach sample_env_elsewhere sample_job
           PMIX_GDS_SHMEM_JOB_ID ''jobdata'' 4097)))
        PMIX_GDS_SHMEM_JOB_ID PMIX_GDS_SHMEM_RELEASE
   \<and> shmem_segment_attach_and_init sample_env sample_job sample_seginfo
       = Returned (PMIX_SUCCESS,
           sample_job\<lparr>shmem := \<lparr>backing_path = ''/tmp/pmix-gds-shmem.node0-nsA.jobdata.4242'',
                      size_shmem = 8192, base_address = 0x7f0000000000\<rparr>,
             smdata := 0x7f0000000000,
             shmem_status := {PMIX_GDS_SHMEM_READY_FOR_USE, PMIX_GDS_SHMEM_ATTACHED}\<rparr>,
           [Segment_attach PMIX_GDS_SHMEM_JOB_ID 0x7f0000000000])"
  using release_flag_latched [where env = sample_env and job = sample_job
      and i = PMIX_GDS_SHMEM_JOB_ID and name = "''jobdata''" and sz = 4097
      and seginfo = sample_seginfo]
    release_flag_latched [where env = sample_env_elsewhere and job = sample_job
      and i = PMIX_GDS_SHMEM_JOB_ID and name = "''jobdata''" and sz = 4097
      and seginfo = sample_seginfo]
  by (simp add: sample_create_ok sample_create_elsewhere sample_attach_and_init
        pmix_gds_shmem_has_status_def sample_job_simps)

text \<open>
  Claim C7 as stated fails: on the node whose kernel maps elsewhere the backing file is
  created with success, the attach is refused, and the role is left without \<open>RELEASE\<close>.
\<close>

theorem release_flag_counterexample:
  "pmix_shmem_segment_create sample_env_elsewhere (shmem sample_job) 8192
       ''/tmp/pmix-gds-shmem.node0-nsA.jobdata.4242''
     = (PMIX_SUCCESS,
        \<lparr>backing_path = ''/tmp/pmix-gds-shmem.node0-nsA.jobdata.4242'', size_shmem = 8192,
         base_address = 0\<rparr>)
   \<and> snd (snd (shmem_segment_create_and_attach sample_env_elsewhere sample_job
                 PMIX_GDS_SHMEM_JOB_ID ''jobdata'' 4097))
       = [Vmem_find_hole 8192,
          Segment_create PMIX_GDS_SHMEM_JOB_ID 8192 ''/tmp/pmix-gds-shmem.node0-nsA.jobdata.4242'',
          Segment_attach PMIX_GDS_SHMEM_JOB_ID 0x7f0000000000,
          Show_help ''shmem-segment-attach:address-mismatch'',
          Segment_detach PMIX_GDS_SHMEM_JOB_ID]
   \<and> fst (shmem_segment_create_and_attach sample_env_elsewhere sample_job PMIX_GDS_SHMEM_JOB_ID
          ''jobdata'' 4097) = PMIX_ERROR
   \<and> \<not> pmix_gds_shmem_has_status
        (fst (snd (shmem_segment_create_and_attach sample_env_elsewhere sample_job
           PMIX_GDS_SHMEM_JOB_ID ''jobdata'' 4097)))
        PMIX_GDS_SHMEM_JOB_ID PMIX_GDS_SHMEM_RELEASE"
  by (simp add: sample_create_elsewhere sample_env_elsewhere_simps sample_job_simps
        sample_shmem_def pmix_gds_shmem_has_status_def)

subsection \<open>Rounding a segment to pages\<close>

lemma pad_eq_take_bit:
  "pad_amount_to_page (2 ^ k) sz = take_bit k (2 ^ k - sz)"
proof -
  have "(2::int) ^ k \<noteq> -1"
    by (smt (verit) zero_less_power)
  then have gp: "get_page_size (2 ^ k) = 2 ^ k"
    by (simp add: get_page_size_def)
  have eq: "NOT sz + 2 ^ k + 1 = 2 ^ k - sz"
    by (simp add: not_eq_complement)
  show ?thesis
    unfolding pad_amount_to_page_def Let_def gp eq
    by (simp add: mask_eq_exp_minus_1 [symmetric] take_bit_eq_mask)
qed

lemma nat_round_up:
  fixes n P :: nat
  assumes "0 < P"
  shows "n + (if n mod P = 0 then 0 else P - n mod P) = spec_ceil_to_page P n"
proof (cases "n mod P = 0")
  case True
  then obtain q where q: "n = q * P" by (metis mod_eq_0_iff_dvd dvd_def mult.commute)
  have "q * P + P - 1 = q * P + (P - 1)" using assms by simp
  moreover have "(q * P + (P - 1)) div P = q + (P - 1) div P"
    using assms by (subst div_mult_self3) auto
  moreover have "(P - 1) div P = 0" using assms by simp
  ultimately show ?thesis using True q by (simp add: spec_ceil_to_page_def)
next
  case False
  define q r where "q = n div P" and "r = n mod P"
  have n: "n = q * P + r" and r: "0 < r" "r < P"
    using False assms by (simp_all add: q_def r_def)
  have "(n + P - 1) div P = q + 1"
  proof -
    have "n + P - 1 = (q + 1) * P + (r - 1)" using n r by (simp add: algebra_simps)
    moreover have "r - 1 < P" using r by simp
    ultimately show ?thesis using assms by (simp only: div_mult_self3) simp
  qed
  then show ?thesis
    using n r False by (simp add: spec_ceil_to_page_def r_def [symmetric] algebra_simps)
qed

lemma unat_pad:
  assumes "k < 64"
  shows "unat (pad_amount_to_page (2 ^ k) sz) =
         (if unat sz mod 2 ^ k = 0 then 0 else 2 ^ k - unat sz mod 2 ^ k)"
proof -
  have dvd: "(2::int) ^ k dvd 2 ^ LENGTH(64)"
    by (rule le_imp_power_dvd) (use assms in simp)
  have p: "uint (2 ^ k :: 64 word) = 2 ^ k"
    by (rule uint_2p) (use assms in \<open>simp add: word_neq_0_conv [symmetric]\<close>)
  have "uint (take_bit k (2 ^ k - sz)) = take_bit k (uint (2 ^ k - sz))"
    by (rule unsigned_take_bit_eq)
  also have "\<dots> = ((2 ^ k - uint sz) mod 2 ^ LENGTH(64)) mod 2 ^ k"
    by (simp only: take_bit_eq_mod uint_word_ariths p)
  also have "\<dots> = (2 ^ k - uint sz) mod 2 ^ k"
    using dvd by (rule mod_mod_cancel)
  also have "\<dots> = (if uint sz mod 2 ^ k = 0 then 0 else 2 ^ k - uint sz mod 2 ^ k)"
    by (simp add: zmod_zminus1_eq_if)
  finally have "uint (pad_amount_to_page (2 ^ k) sz) =
      (if uint sz mod 2 ^ k = 0 then 0 else 2 ^ k - uint sz mod 2 ^ k)"
    by (simp add: pad_eq_take_bit)
  moreover have "int (if unat sz mod 2 ^ k = 0 then 0 else 2 ^ k - unat sz mod 2 ^ k) =
      (if uint sz mod 2 ^ k = 0 then 0 else 2 ^ k - uint sz mod 2 ^ k)"
  proof -
    have "unat sz mod 2 ^ k \<le> 2 ^ k" by simp
    then have "int (2 ^ k - unat sz mod 2 ^ k) = 2 ^ k - uint sz mod 2 ^ k"
      by (simp only: of_nat_diff of_nat_mod of_nat_power of_nat_numeral uint_nat)
    moreover have "uint sz mod 2 ^ k = int (unat sz mod 2 ^ k)"
      by (simp only: of_nat_mod of_nat_power of_nat_numeral uint_nat)
    then have "(uint sz mod 2 ^ k = 0) = (unat sz mod 2 ^ k = 0)"
      by (simp only: of_nat_eq_0_iff)
    ultimately show ?thesis by simp
  qed
  ultimately have "int (unat (pad_amount_to_page (2 ^ k) sz)) =
      int (if unat sz mod 2 ^ k = 0 then 0 else 2 ^ k - unat sz mod 2 ^ k)"
    by (simp only: uint_nat)
  then show ?thesis by (simp only: of_nat_eq_iff)
qed

lemma unat_real_segsize:
  assumes "k < 64"
  shows "unat (sz + pad_amount_to_page (2 ^ k) sz) = spec_ceil_to_page (2 ^ k) (unat sz) mod 2 ^ 64"
  by (simp add: unat_word_ariths unat_pad [OF assms] nat_round_up [symmetric])


lemma ceil_page_exact: "0 < P \<Longrightarrow> spec_ceil_to_page P P = P"
proof -
  assume "0 < P"
  then have "P + P - 1 = 1 * P + (P - 1)" by simp
  moreover have "(1 * P + (P - 1)) div P = 1 + (P - 1) div P"
    using \<open>0 < P\<close> by (subst div_mult_self3) auto
  moreover have "(P - 1) div P = 0" using \<open>0 < P\<close> by simp
  ultimately have "(P + P - 1) div P = 1" by simp
  then show ?thesis by (simp add: spec_ceil_to_page_def)
qed

lemma ceil_page_plus_one: "0 < P \<Longrightarrow> spec_ceil_to_page P (P + 1) = 2 * P"
proof -
  assume P: "0 < P"
  have "P + 1 + P - 1 = 2 * P" by simp
  then show ?thesis using P by (simp add: spec_ceil_to_page_def)
qed

text \<open>
  Claim C5, as the code has it. For a page size \<open>2 ^ k\<close> with \<open>k < 64\<close> the size passed on is
  the requested size plus \<^verbatim>\<open>pad_amount_to_page\<close> of it, which is the requested size rounded
  up to the next multiple of the page size, reduced modulo \<open>2 ^ 64\<close>: it is the rounded size
  itself whenever that is below \<open>2 ^ 64\<close>. A request of one page gives one page; a request of
  one page and a byte gives two pages when \<open>k < 63\<close>. Every backing file
  \<^verbatim>\<open>shmem_segment_create_and_attach\<close> creates has that size, and a successful call has
  created one.
\<close>

theorem real_segsize_page_multiple:
  assumes "k < 64" and "sysconf_page_size env = 2 ^ k"
  shows "unat (sz + pad_amount_to_page (sysconf_page_size env) sz)
           = spec_ceil_to_page (2 ^ k) (unat sz) mod 2 ^ 64
       \<and> (spec_ceil_to_page (2 ^ k) (unat sz) < 2 ^ 64 \<longrightarrow>
            unat (sz + pad_amount_to_page (sysconf_page_size env) sz)
              = spec_ceil_to_page (2 ^ k) (unat sz))
       \<and> (2 ^ k :: size_t) + pad_amount_to_page (sysconf_page_size env) (2 ^ k) = 2 ^ k
       \<and> (k < 63 \<longrightarrow>
            (2 ^ k + 1 :: size_t) + pad_amount_to_page (sysconf_page_size env) (2 ^ k + 1)
              = 2 * 2 ^ k)
       \<and> (case shmem_segment_create_and_attach env job i name sz of
            (rc, job', ev) \<Rightarrow>
              (\<forall>j n p. Segment_create j n p \<in> set ev \<longrightarrow>
                 n = sz + pad_amount_to_page (sysconf_page_size env) sz)
            \<and> (rc = PMIX_SUCCESS \<longrightarrow>
                 (\<exists>p. Segment_create i (sz + pad_amount_to_page (sysconf_page_size env) sz) p
                        \<in> set ev)))"
proof -
  note r = unat_real_segsize [OF assms(1)]
  have u: "unat (2 ^ k :: size_t) = 2 ^ k"
    using assms(1) by (simp add: unat_eq_nat_uint uint_2p word_neq_0_conv [symmetric])
  have lt: "(2::nat) ^ k < 2 ^ 64"
    by (rule power_strict_increasing) (use assms(1) in simp_all)
  have one: "(2 ^ k :: size_t) + pad_amount_to_page (2 ^ k) (2 ^ k) = 2 ^ k"
  proof -
    have "unat ((2 ^ k :: size_t) + pad_amount_to_page (2 ^ k) (2 ^ k)) = unat (2 ^ k :: size_t)"
      using lt by (simp only: r u ceil_page_exact zero_less_power zero_less_numeral mod_less)
    then show ?thesis by (simp only: word_unat_eq_iff)
  qed
  have two: "(2 ^ k + 1 :: size_t) + pad_amount_to_page (2 ^ k) (2 ^ k + 1) = 2 * 2 ^ k"
    if "k < 63"
  proof -
    have "(2::nat) ^ Suc k < 2 ^ 64"
      by (rule power_strict_increasing) (use that in simp_all)
    then have lt2: "(2::nat) * 2 ^ k < 2 ^ 64"
      by (simp only: power_Suc)
    have "(1::nat) \<le> 2 ^ k" by simp
    with lt2 have lt1: "(2::nat) ^ k + 1 < 2 ^ 64" by linarith
    have u1: "unat (2 ^ k + 1 :: size_t) = 2 ^ k + 1"
      using lt1 u by (simp add: unat_word_ariths)
    have u2: "unat (2 * 2 ^ k :: size_t) = 2 * 2 ^ k"
      using lt2 u by (simp add: unat_word_ariths)
    have "unat ((2 ^ k + 1 :: size_t) + pad_amount_to_page (2 ^ k) (2 ^ k + 1))
            = unat (2 * 2 ^ k :: size_t)"
      using lt2 by (simp only: r u1 u2 ceil_page_plus_one zero_less_power zero_less_numeral
          mod_less)
    then show ?thesis by (simp only: word_unat_eq_iff)
  qed
  obtain rc job' ev where
    c: "shmem_segment_create_and_attach env job i name sz = (rc, job', ev)"
    by (metis prod_cases3)
  from create_and_attach_cases [OF c] have ev:
    "(\<forall>j n p. Segment_create j n p \<in> set ev \<longrightarrow>
         n = sz + pad_amount_to_page (sysconf_page_size env) sz)
     \<and> (rc = PMIX_SUCCESS \<longrightarrow>
         (\<exists>p. Segment_create i (sz + pad_amount_to_page (sysconf_page_size env) sz) p
                \<in> set ev))"
    by (elim disjE conjE exE) (simp, blast)
  from r one two ev c show ?thesis
    by (simp add: assms(2))
qed


theorem real_segsize_page_multiple_witness:
  "(12::nat) < 64 \<and> sysconf_page_size sample_env = 2 ^ 12
   \<and> unat ((4097 :: size_t) + pad_amount_to_page (sysconf_page_size sample_env) 4097) = 8192
   \<and> spec_ceil_to_page (2 ^ 12) (unat (4097 :: size_t)) = 8192
   \<and> (4096 :: size_t) + pad_amount_to_page (sysconf_page_size sample_env) 4096 = 4096
   \<and> (4097 :: size_t) + pad_amount_to_page (sysconf_page_size sample_env) 4097 = 2 * 4096
   \<and> fst (shmem_segment_create_and_attach sample_env sample_job PMIX_GDS_SHMEM_JOB_ID
            ''jobdata'' 4097) = PMIX_SUCCESS
   \<and> snd (snd (shmem_segment_create_and_attach sample_env sample_job PMIX_GDS_SHMEM_JOB_ID
                 ''jobdata'' 4097))
       = [Vmem_find_hole 8192,
          Segment_create PMIX_GDS_SHMEM_JOB_ID 8192 ''/tmp/pmix-gds-shmem.node0-nsA.jobdata.4242'',
          Segment_attach PMIX_GDS_SHMEM_JOB_ID 0x7f0000000000]"
proof -
  have k: "(12::nat) < 64" by simp
  have p: "sysconf_page_size sample_env = 2 ^ 12"
    by (simp add: sample_env_simps)
  have c: "spec_ceil_to_page (2 ^ 12) (unat (4097 :: size_t)) = 8192"
    by (simp add: spec_ceil_to_page_def)
  from real_segsize_page_multiple [OF k p, where sz = 4097 and job = sample_job
      and i = PMIX_GDS_SHMEM_JOB_ID and name = "''jobdata''"]
    k p c
  show ?thesis
    by (simp add: sample_create_ok sample_env_simps pad_4097 pad_4096)
qed

text \<open>
  Claim C5 as stated fails for a request within a page of \<open>2 ^ 64\<close>: the sum wraps to 0,
  while the request rounded up is \<open>2 ^ 64\<close>.
\<close>

theorem real_segsize_counterexample:
  "sysconf_page_size sample_env = 4096
   \<and> unat ((18446744073709551615 :: size_t)
            + pad_amount_to_page (sysconf_page_size sample_env) 18446744073709551615) = 0
   \<and> spec_ceil_to_page 4096 (unat (18446744073709551615 :: size_t)) = 18446744073709551616"
  by (simp add: sample_env_simps pad_max spec_ceil_to_page_def)

subsection \<open>Sizing the job segment\<close>

lemma stats_loop_all_packed:
  assumes "\<forall>kv \<in> set kvs. fst (bfrops_pack_kval env kv) = PMIX_SUCCESS"
  shows "get_local_job_data_stats_loop env kvs n b =
     (PMIX_SUCCESS,
      n + sum_list (map (\<lambda>kv. case val kv of
                            PMIX_DATA_ARRAY len \<Rightarrow> if key kv = PMIX_PROC_DATA then len else 0
                          | _ \<Rightarrow> 1) kvs),
      b + sum_list (map (\<lambda>kv. snd (bfrops_pack_kval env kv)) kvs))"
  using assms
proof (induction kvs arbitrary: n b)
  case Nil
  then show ?case by simp
next
  case (Cons kv kvs)
  obtain rc nb where p: "bfrops_pack_kval env kv = (rc, nb)" by force
  with Cons.prems have rc: "rc = PMIX_SUCCESS" by simp
  from Cons.prems have "\<forall>kv \<in> set kvs. fst (bfrops_pack_kval env kv) = PMIX_SUCCESS" by simp
  note ih = Cons.IH [OF this]
  show ?case
    by (cases "val kv") (simp_all add: p rc ih PMIX_CHECK_KEY_def Let_def add.assoc)
qed

lemma prepare_events:
  assumes "prepare_shmem_store_for_local_job_data env job stats = (rc, job', ev)"
  shows "(\<forall>j n. Hash_table_init j n \<in> set ev \<longrightarrow>
            j = PMIX_GDS_SHMEM_JOB_ID \<and> n = hash_table_size stats)
       \<and> (rc = PMIX_SUCCESS \<longrightarrow>
            Hash_table_init PMIX_GDS_SHMEM_JOB_ID (hash_table_size stats) \<in> set ev)"
proof -
  define seg where "seg = mul_segment_size_multiplier env (mul_fluff env
     (sizeof_smdata env + sizeof_pmix_tma_t env + sizeof_session env
      + sizeof_pmix_list_t env + sizeof_pmix_list_t env + sizeof_pmix_list_t env
      + sizeof_pmix_hash_table_t env + sizeof_pmix_hash_table_t env
      + hash_table_size stats * pmix_hash_table_sizeof_hash_element env
      + hash_table_size stats * (sizeof_pmix_kval_t env + sizeof_pmix_value_t env)
      + packed_size stats))"
  obtain rc1 job1 ev1 where
    c: "shmem_segment_create_and_attach env job PMIX_GDS_SHMEM_JOB_ID ''jobdata'' seg
          = (rc1, job1, ev1)"
    by (metis prod_cases3)
  from create_and_attach_cases [OF c] have "\<forall>e \<in> set ev1. segment_event e"
    by auto
  then have no: "\<forall>j n. Hash_table_init j n \<notin> set ev1"
    by fastforce
  from assms c have "(if PMIX_SUCCESS \<noteq> rc1 then (rc1, job1, ev1)
      else (case job_smdata_construct env job1 (hash_table_size stats) of
              (rc', job2, ev2) \<Rightarrow> (rc', job2, ev1 @ ev2))) = (rc, job', ev)"
    by (simp add: prepare_shmem_store_for_local_job_data_def Let_def seg_def)
  with no show ?thesis
    by (auto simp add: job_smdata_construct_def Let_def split: if_splits)
qed

text \<open>
  Claim C1, as the code has it. When the codec packs every fetched pair, the statistics hold
  the bytes packed and, as hash-table size, the actual capacity the hash table reports for
  the entry count, where a data array under the process-data key counts with its length, a
  data array under any other key counts nothing, and every pair that is no data array counts
  one. \<^verbatim>\<open>prepare_shmem_store_for_local_job_data\<close> initialises no hash table with another size
  than the recorded one, and on success has initialised the local hash table of the job
  segment with it.
\<close>

theorem job_hash_table_sizing:
  assumes "\<forall>kv \<in> set kvs. fst (bfrops_pack_kval env kv) = PMIX_SUCCESS"
  shows "get_local_job_data_stats env kvs =
     (PMIX_SUCCESS,
      \<lparr>packed_size = sum_list (map (\<lambda>kv. snd (bfrops_pack_kval env kv)) kvs),
       hash_table_size = ht_capacity_of_init env
         (sum_list (map (\<lambda>kv. case val kv of
                            PMIX_DATA_ARRAY len \<Rightarrow> if key kv = PMIX_PROC_DATA then len else 0
                          | _ \<Rightarrow> 1) kvs))\<rparr>)
   \<and> (case prepare_shmem_store_for_local_job_data env job
             (snd (get_local_job_data_stats env kvs)) of
        (rc, job', ev) \<Rightarrow>
          (\<forall>j n. Hash_table_init j n \<in> set ev \<longrightarrow>
             j = PMIX_GDS_SHMEM_JOB_ID
             \<and> n = hash_table_size (snd (get_local_job_data_stats env kvs)))
        \<and> (rc = PMIX_SUCCESS \<longrightarrow>
             Hash_table_init PMIX_GDS_SHMEM_JOB_ID
               (hash_table_size (snd (get_local_job_data_stats env kvs))) \<in> set ev))"
proof -
  have a: "get_local_job_data_stats env kvs =
     (PMIX_SUCCESS,
      \<lparr>packed_size = sum_list (map (\<lambda>kv. snd (bfrops_pack_kval env kv)) kvs),
       hash_table_size = ht_capacity_of_init env
         (sum_list (map (\<lambda>kv. case val kv of
                            PMIX_DATA_ARRAY len \<Rightarrow> if key kv = PMIX_PROC_DATA then len else 0
                          | _ \<Rightarrow> 1) kvs))\<rparr>)"
    by (simp add: get_local_job_data_stats_def stats_loop_all_packed [OF assms]
          get_actual_hashtab_capacity_def)
  obtain rc job' ev where
    p: "prepare_shmem_store_for_local_job_data env job (snd (get_local_job_data_stats env kvs))
          = (rc, job', ev)"
    by (metis prod_cases3)
  from prepare_events [OF p] p a show ?thesis
    by simp
qed


lemma sample_env_sizes:
  "ht_capacity_of_init sample_env n = 2 * n + 1"
  "pmix_hash_table_sizeof_hash_element sample_env = 32"
  "sizeof_pmix_hash_table_t sample_env = 96"
  "sizeof_pmix_list_t sample_env = 64"
  "sizeof_pmix_kval_t sample_env = 48"
  "sizeof_pmix_value_t sample_env = 32"
  "sizeof_pmix_tma_t sample_env = 56"
  "sizeof_session sample_env = 40"
  "sizeof_smdata sample_env = 128"
  "sizeof_smmodex sample_env = 96"
  "bfrops_pack_kval sample_env kv = (PMIX_SUCCESS, word_of_nat (length (key kv)) + 16)"
  "asprintf_fails sample_env s = False"
  "mul_fluff sample_env n = word_of_int (uint n * 5 div 2)"
  "mul_segment_size_multiplier sample_env n = n"
  by (simp_all add: sample_env_def mul_fluff_def mul_segment_size_multiplier_def fluff_def)

lemma sample_stats:
  "get_local_job_data_stats sample_env sample_kvs
     = (PMIX_SUCCESS, \<lparr>packed_size = 81, hash_table_size = 9\<rparr>)"
  by (simp add: get_local_job_data_stats_def sample_kvs_def sample_env_sizes Let_def
        PMIX_CHECK_KEY_def PMIX_PROC_DATA_def PMIX_NODE_INFO_ARRAY_def
        get_actual_hashtab_capacity_def)

lemma pad_4242: "pad_amount_to_page 4096 4242 = 3950"
  by (simp add: pad_amount_to_page_def get_page_size_def)

lemma sample_create_4242:
  "shmem_segment_create_and_attach sample_env sample_job PMIX_GDS_SHMEM_JOB_ID ''jobdata'' 4242
   = (PMIX_SUCCESS,
      sample_job\<lparr>shmem := \<lparr>backing_path = ''/tmp/pmix-gds-shmem.node0-nsA.jobdata.4242'',
                  size_shmem = 8192, base_address = 0x7f0000000000\<rparr>,
         shmem_status := {PMIX_GDS_SHMEM_RELEASE, PMIX_GDS_SHMEM_ATTACHED}\<rparr>,
      [Vmem_find_hole 8192,
       Segment_create PMIX_GDS_SHMEM_JOB_ID 8192 ''/tmp/pmix-gds-shmem.node0-nsA.jobdata.4242'',
       Segment_attach PMIX_GDS_SHMEM_JOB_ID 0x7f0000000000])"
  by (simp add: shmem_segment_create_and_attach_def shmem_segment_create_and_attach_out_def
        sample_path pad_4242 Let_def shmem_attach_def pmix_gds_shmem_get_job_shmem_by_id_def
        put_job_shmem_def pmix_gds_shmem_set_status_def sample_env_simps sample_job_simps
        sample_shmem_def)

lemma sample_prepare:
  "prepare_shmem_store_for_local_job_data sample_env sample_job
      \<lparr>packed_size = 81, hash_table_size = 9\<rparr>
   = (PMIX_SUCCESS,
      sample_job\<lparr>shmem := \<lparr>backing_path = ''/tmp/pmix-gds-shmem.node0-nsA.jobdata.4242'',
                  size_shmem = 8192, base_address = 0x7f0000000000\<rparr>,
         shmem_status := {PMIX_GDS_SHMEM_RELEASE, PMIX_GDS_SHMEM_ATTACHED},
         smdata := 0x7f0000000000\<rparr>,
      [Vmem_find_hole 8192,
       Segment_create PMIX_GDS_SHMEM_JOB_ID 8192 ''/tmp/pmix-gds-shmem.node0-nsA.jobdata.4242'',
       Segment_attach PMIX_GDS_SHMEM_JOB_ID 0x7f0000000000,
       Tma_init PMIX_GDS_SHMEM_JOB_ID 0x7f0000000080,
       Obj_new PMIX_GDS_SHMEM_JOB_ID ''pmix_list_t'',
       Obj_new PMIX_GDS_SHMEM_JOB_ID ''pmix_list_t'',
       Obj_new PMIX_GDS_SHMEM_JOB_ID ''pmix_list_t'',
       Obj_new PMIX_GDS_SHMEM_JOB_ID ''pmix_hash_table_t'',
       Hash_table_init PMIX_GDS_SHMEM_JOB_ID 9])"
  by (simp add: prepare_shmem_store_for_local_job_data_def Let_def sample_env_sizes
        sample_create_4242 job_smdata_construct_def addr_align_def)

theorem job_hash_table_sizing_witness:
  "fst (bfrops_pack_kval sample_env \<lparr>key = PMIX_PROC_DATA, val = PMIX_DATA_ARRAY 3\<rparr>)
     = PMIX_SUCCESS
   \<and> fst (bfrops_pack_kval sample_env \<lparr>key = PMIX_NODE_INFO_ARRAY, val = PMIX_DATA_ARRAY 5\<rparr>)
     = PMIX_SUCCESS
   \<and> fst (bfrops_pack_kval sample_env \<lparr>key = ''pmix.jobid'', val = PMIX_STRING ''job-7''\<rparr>)
     = PMIX_SUCCESS
   \<and> get_local_job_data_stats sample_env sample_kvs
     = (PMIX_SUCCESS, \<lparr>packed_size = 81, hash_table_size = 9\<rparr>)
   \<and> ht_capacity_of_init sample_env (3 + 0 + 1) = 9
   \<and> fst (prepare_shmem_store_for_local_job_data sample_env sample_job
            (snd (get_local_job_data_stats sample_env sample_kvs))) = PMIX_SUCCESS
   \<and> Hash_table_init PMIX_GDS_SHMEM_JOB_ID 9
       \<in> set (snd (snd (prepare_shmem_store_for_local_job_data sample_env sample_job
                 (snd (get_local_job_data_stats sample_env sample_kvs)))))"
proof -
  have h: "\<forall>kv \<in> set sample_kvs. fst (bfrops_pack_kval sample_env kv) = PMIX_SUCCESS"
    by (simp add: sample_env_sizes)
  from job_hash_table_sizing [OF h, of sample_job] show ?thesis
    by (simp add: sample_stats sample_prepare sample_env_sizes)
qed

text \<open>
  Claim C1 as stated fails: a data array under the node-information key adds nothing to the
  count, where the claim has it add one.
\<close>

theorem job_hash_table_sizing_counterexample:
  "get_local_job_data_stats_loop sample_env
       [\<lparr>key = PMIX_NODE_INFO_ARRAY, val = PMIX_DATA_ARRAY 5\<rparr>] 0 0
     = (PMIX_SUCCESS, 0, 29)
   \<and> spec_hash_entries \<lparr>key = PMIX_NODE_INFO_ARRAY, val = PMIX_DATA_ARRAY 5\<rparr> = 1
   \<and> hash_table_size (snd (get_local_job_data_stats sample_env
        [\<lparr>key = PMIX_NODE_INFO_ARRAY, val = PMIX_DATA_ARRAY 5\<rparr>]))
     = ht_capacity_of_init sample_env 0
   \<and> ht_capacity_of_init sample_env 0
     \<noteq> ht_capacity_of_init sample_env
         (spec_hash_entries \<lparr>key = PMIX_NODE_INFO_ARRAY, val = PMIX_DATA_ARRAY 5\<rparr>)"
  by (simp add: get_local_job_data_stats_def sample_env_sizes Let_def spec_hash_entries_def
        PMIX_CHECK_KEY_def PMIX_PROC_DATA_def PMIX_NODE_INFO_ARRAY_def
        get_actual_hashtab_capacity_def)

subsection \<open>Storing modex data\<close>









subsection \<open>Deleting a namespace\<close>

lemma del_nspace_loop_absent:
  "nspace \<notin> nspace_id ` set jobs \<Longrightarrow> del_nspace_loop nspace jobs = (jobs, None)"
  by (induction jobs) auto

lemma del_nspace_loop_present:
  "nspace \<in> nspace_id ` set jobs \<Longrightarrow>
   \<exists>pre ji post. jobs = pre @ ji # post \<and> nspace_id ji = nspace
      \<and> nspace \<notin> nspace_id ` set pre
      \<and> del_nspace_loop nspace jobs = (pre @ post, Some ji)"
proof (induction jobs)
  case Nil
  then show ?case by simp
next
  case (Cons j jobs)
  show ?case
  proof (cases "nspace = nspace_id j")
    case True
    then have "j # jobs = [] @ j # jobs \<and> nspace_id j = nspace
        \<and> nspace \<notin> nspace_id ` set []
        \<and> del_nspace_loop nspace (j # jobs) = ([] @ jobs, Some j)"
      by simp
    then show ?thesis by blast
  next
    case False
    with Cons.prems have "nspace \<in> nspace_id ` set jobs" by auto
    from Cons.IH [OF this] obtain pre ji post where
      h: "jobs = pre @ ji # post" "nspace_id ji = nspace" "nspace \<notin> nspace_id ` set pre"
         "del_nspace_loop nspace jobs = (pre @ post, Some ji)"
      by blast
    with False have "j # jobs = (j # pre) @ ji # post \<and> nspace_id ji = nspace
        \<and> nspace \<notin> nspace_id ` set (j # pre)
        \<and> del_nspace_loop nspace (j # jobs) = ((j # pre) @ post, Some ji)"
      by auto
    then show ?thesis by blast
  qed
qed

text \<open>
  Claim C10. \<^verbatim>\<open>del_nspace\<close> returns success for every namespace; when no tracker of the list
  has the namespace the list is unchanged and nothing is released; otherwise the list loses
  exactly the first tracker of the namespace (no tracker before it has the namespace, the
  trackers before and after it stay in order) and that tracker is released.
\<close>

theorem del_nspace_first_match:
  "fst (del_nspace nspace jobs) = PMIX_SUCCESS
   \<and> (nspace \<notin> nspace_id ` set jobs \<longrightarrow> del_nspace nspace jobs = (PMIX_SUCCESS, jobs, None))
   \<and> (nspace \<in> nspace_id ` set jobs \<longrightarrow>
        (\<exists>pre ji post. jobs = pre @ ji # post \<and> nspace_id ji = nspace
           \<and> nspace \<notin> nspace_id ` set pre
           \<and> del_nspace nspace jobs = (PMIX_SUCCESS, pre @ post, Some ji)))"
proof -
  have "fst (del_nspace nspace jobs) = PMIX_SUCCESS"
    by (simp add: del_nspace_def split_def)
  moreover have "del_nspace nspace jobs = (PMIX_SUCCESS, jobs, None)"
    if "nspace \<notin> nspace_id ` set jobs"
    using del_nspace_loop_absent [OF that] by (simp add: del_nspace_def)
  moreover have "\<exists>pre ji post. jobs = pre @ ji # post \<and> nspace_id ji = nspace
           \<and> nspace \<notin> nspace_id ` set pre
           \<and> del_nspace nspace jobs = (PMIX_SUCCESS, pre @ post, Some ji)"
    if "nspace \<in> nspace_id ` set jobs"
    using del_nspace_loop_present [OF that] by (auto simp add: del_nspace_def)
  ultimately show ?thesis by blast
qed

theorem del_nspace_first_match_witness:
  "''nsC'' \<notin> nspace_id ` set [sample_job\<lparr>nspace_id := ''nsB''\<rparr>, sample_job,
        sample_job\<lparr>nspace_nprocs := 8\<rparr>]
   \<and> del_nspace ''nsC'' [sample_job\<lparr>nspace_id := ''nsB''\<rparr>, sample_job,
        sample_job\<lparr>nspace_nprocs := 8\<rparr>]
       = (PMIX_SUCCESS,
          [sample_job\<lparr>nspace_id := ''nsB''\<rparr>, sample_job, sample_job\<lparr>nspace_nprocs := 8\<rparr>],
          None)
   \<and> ''nsA'' \<in> nspace_id ` set [sample_job\<lparr>nspace_id := ''nsB''\<rparr>, sample_job,
        sample_job\<lparr>nspace_nprocs := 8\<rparr>]
   \<and> del_nspace ''nsA'' [sample_job\<lparr>nspace_id := ''nsB''\<rparr>, sample_job,
        sample_job\<lparr>nspace_nprocs := 8\<rparr>]
       = (PMIX_SUCCESS,
          [sample_job\<lparr>nspace_id := ''nsB''\<rparr>, sample_job\<lparr>nspace_nprocs := 8\<rparr>],
          Some sample_job)"
  using del_nspace_first_match [of "''nsC''" "[sample_job\<lparr>nspace_id := ''nsB''\<rparr>, sample_job,
        sample_job\<lparr>nspace_nprocs := 8\<rparr>]"]
    del_nspace_first_match [of "''nsA''" "[sample_job\<lparr>nspace_id := ''nsB''\<rparr>, sample_job,
        sample_job\<lparr>nspace_nprocs := 8\<rparr>]"]
  by (simp add: del_nspace_def sample_job_def)

subsection \<open>Connection information: packing and unpacking\<close>

lemma digit_value_digit_char: "d < 16 \<Longrightarrow> digit_value (digit_char d) = Some d"
proof -
  assume "d < 16"
  then have "d \<in> {0, 1, 2, 3, 4, 5, 6, 7, 8, 9, 10, 11, 12, 13, 14, 15}"
    by simp arith
  then show ?thesis
    by (auto simp add: digit_char_def digit_value_def)
qed

lemma is_digit_in_plain:
  assumes "is_digit_in base c" and "base \<le> 16"
  shows "\<not> isspace c" and "c \<noteq> CHR ''-''" and "c \<noteq> CHR ''+''"
    and "c \<noteq> CHR ''x''" and "c \<noteq> CHR ''X''"
  using assms
  by (auto simp add: is_digit_in_def digit_value_def isspace_def Let_def
        split: if_splits option.splits)

lemma print_unsigned_digits:
  assumes "2 \<le> base" and "base \<le> 16"
  shows "print_unsigned base n \<noteq> [] \<and> (\<forall>c \<in> set (print_unsigned base n). is_digit_in base c)"
  using assms
proof (induction base n rule: print_unsigned.induct)
  case (1 base n)
  show ?case
  proof (cases "n < base")
    case True
    with 1(3) have "n < 16" by simp
    with True 1(2) show ?thesis
      by (simp add: print_unsigned.simps [of base n] is_digit_in_def digit_value_digit_char)
  next
    case False
    have "n mod base < base" using 1(2) by simp
    moreover from this 1(3) have "n mod base < 16" by simp
    ultimately have "is_digit_in base (digit_char (n mod base))"
      by (simp add: is_digit_in_def digit_value_digit_char)
    with False 1 show ?thesis
      by (simp add: print_unsigned.simps [of base n])
  qed
qed

lemma digits_value_append:
  "digits_value base acc (xs @ ys) = digits_value base (digits_value base acc xs) ys"
  by (induction xs arbitrary: acc) simp_all

lemma digits_value_print_unsigned:
  assumes "2 \<le> base" and "base \<le> 16"
  shows "digits_value base 0 (print_unsigned base n) = n"
  using assms
proof (induction base n rule: print_unsigned.induct)
  case (1 base n)
  show ?case
  proof (cases "n < base")
    case True
    with 1(3) have "n < 16" by simp
    with True 1(2) show ?thesis
      by (simp add: print_unsigned.simps [of base n] digit_value_digit_char)
  next
    case False
    have "n mod base < base" using 1(2) by simp
    with 1(3) have "n mod base < 16" by simp
    with False 1 show ?thesis
      by (simp add: print_unsigned.simps [of base n] digits_value_append
            digit_value_digit_char)
  qed
qed


lemma strtoll_print_unsigned:
  assumes "base = 10 \<or> base = 16" and "int n \<le> LLONG_MAX"
  shows "strtoll (print_unsigned base n) base = (int n, [], False)"
proof -
  from assms(1) have b: "2 \<le> base" "base \<le> 16" by auto
  define s where "s = print_unsigned base n"
  from print_unsigned_digits [OF b, of n]
  have ne: "s \<noteq> []" and all: "\<forall>c \<in> set s. is_digit_in base c"
    by (simp_all add: s_def)
  from ne obtain c cs where s: "s = c # cs" by (cases s) auto
  with all have c: "is_digit_in base c" by simp
  note plain = is_digit_in_plain [OF c b(2)]
  have sp: "dropWhile isspace s = s"
    using plain(1) by (simp add: s)
  have sg: "strtoll_sign s = (False, s)"
    using plain(2,3) by (simp add: strtoll_sign_def s)
  have px: "strtoll_prefix base s = s"
  proof (cases cs)
    case Nil
    then show ?thesis by (simp add: strtoll_prefix_def s)
  next
    case (Cons cx cs')
    with all s have "is_digit_in base cx" by simp
    from is_digit_in_plain(4,5) [OF this b(2)] Cons show ?thesis
      by (cases cs') (simp_all add: strtoll_prefix_def s)
  qed
  have tk: "takeWhile (is_digit_in base) s = s" "dropWhile (is_digit_in base) s = []"
    using all by (simp_all add: takeWhile_eq_all_conv)
  have v: "digits_value base 0 s = n"
    by (simp add: s_def digits_value_print_unsigned [OF b])
  have lo: "\<not> int n < LLONG_MIN"
    by (simp add: LLONG_MIN_def)
  from assms(2) lo ne show ?thesis
    by (simp add: strtoll_def s_def [symmetric] sp sg px tk v Let_def)
qed

lemma strtost_printf_zx:
  assumes "unat w < 2 ^ 63"
  shows "strtost (printf_zx w) 16 = (PMIX_SUCCESS, w)"
proof -
  from assms have "int (unat w) < int (2 ^ 63)"
    by (simp only: of_nat_less_iff)
  then have "int (unat w) \<le> LLONG_MAX"
    by (simp add: LLONG_MAX_def)
  then have "strtoll (print_unsigned 16 (unat w)) 16 = (int (unat w), [], False)"
    by (intro strtoll_print_unsigned) simp_all
  then show ?thesis
    by (simp add: strtost_def printf_zx_def)
qed

lemma strtost_printf_zd_shmem_id:
  "strtost (printf_zd (size_t_of_shmem_id i)) 10 = (PMIX_SUCCESS, size_t_of_shmem_id i)"
proof -
  define n where "n = unat (size_t_of_shmem_id i)"
  have z: "printf_zd (size_t_of_shmem_id i) = print_unsigned 10 n"
    by (cases i) (simp_all add: printf_zd_def printf_d_def n_def size_t_of_shmem_id_def)
  have w: "word_of_int (int n) = size_t_of_shmem_id i"
    by (simp add: n_def)
  have "n \<le> 2"
    by (cases i) (simp_all add: n_def size_t_of_shmem_id_def)
  then have "int n \<le> LLONG_MAX"
    by (simp add: LLONG_MAX_def)
  then have "strtoll (print_unsigned 10 n) 10 = (int n, [], False)"
    by (intro strtoll_print_unsigned) simp_all
  then show ?thesis
    by (simp add: strtost_def z w del: of_int_of_nat_eq)
qed

lemma shmem_id_of_size_t_inverse: "shmem_id_of_size_t (size_t_of_shmem_id i) = i"
  by (cases i) (simp_all add: shmem_id_of_size_t_def size_t_of_shmem_id_def)

lemma pack_shmem_connection_info_success:
  assumes "pack_shmem_connection_info env job shmem_id buffer = (PMIX_SUCCESS, blob)"
  shows "\<exists>s. pmix_gds_shmem_get_job_shmem_by_id job shmem_id = Inr s
           \<and> blob = buffer @
               [Inr (SHMEM_SEG_NSID_KEY, nspace_id job),
                Inr (SHMEM_SEG_SMID_KEY, printf_zd (size_t_of_shmem_id shmem_id)),
                Inr (SHMEM_SEG_PATH_KEY, backing_path s),
                Inr (SHMEM_SEG_SIZE_KEY, printf_zx (size_shmem s)),
                Inr (SHMEM_SEG_ADDR_KEY, printf_zx (base_address s))]"
proof (cases "pmix_gds_shmem_get_job_shmem_by_id job shmem_id")
  case (Inl rc)
  then have "rc = PMIX_ERROR"
    by (cases shmem_id) (simp_all add: pmix_gds_shmem_get_job_shmem_by_id_def)
  with assms Inl show ?thesis
    by (simp add: pack_shmem_connection_info_def)
next
  case (Inr s)
  have p: "bfrops_pack_string env b k v = (PMIX_SUCCESS, b') \<Longrightarrow> b' = b @ [Inr (k, v)]"
    for b k v b'
    by (auto simp add: bfrops_pack_string_def split: prod.splits if_splits)
  have q: "fst (bfrops_pack_string env b k v) = PMIX_SUCCESS \<Longrightarrow>
           snd (bfrops_pack_string env b k v) = b @ [Inr (k, v)]"
    for b k v
    by (auto simp add: bfrops_pack_string_def split: prod.splits if_splits)
  from assms Inr show ?thesis
    by (auto simp add: pack_shmem_connection_info_def split: prod.splits if_splits dest!: p)
qed

lemma seg_keys_distinct:
  "SHMEM_SEG_NSID_KEY \<noteq> SHMEM_SEG_SMID_KEY" "SHMEM_SEG_NSID_KEY \<noteq> SHMEM_SEG_PATH_KEY"
  "SHMEM_SEG_NSID_KEY \<noteq> SHMEM_SEG_SIZE_KEY" "SHMEM_SEG_NSID_KEY \<noteq> SHMEM_SEG_ADDR_KEY"
  "SHMEM_SEG_SMID_KEY \<noteq> SHMEM_SEG_PATH_KEY" "SHMEM_SEG_SMID_KEY \<noteq> SHMEM_SEG_SIZE_KEY"
  "SHMEM_SEG_SMID_KEY \<noteq> SHMEM_SEG_ADDR_KEY" "SHMEM_SEG_PATH_KEY \<noteq> SHMEM_SEG_SIZE_KEY"
  "SHMEM_SEG_PATH_KEY \<noteq> SHMEM_SEG_ADDR_KEY" "SHMEM_SEG_SIZE_KEY \<noteq> SHMEM_SEG_ADDR_KEY"
  by (simp_all add: SHMEM_SEG_NSID_KEY_def SHMEM_SEG_SMID_KEY_def SHMEM_SEG_PATH_KEY_def
        SHMEM_SEG_SIZE_KEY_def SHMEM_SEG_ADDR_KEY_def)

text \<open>
  Claim C3, as the code has it. Let the five fields of a segment be packed with success into
  an empty buffer, let the size and the base address of the segment be below \<open>2 ^ 63\<close>, and
  let the copies of the namespace and of the path not fail for want of memory on the
  unpacking side. Then unpacking the blob succeeds and yields the namespace id, the role,
  the backing path, the size and the base address that were packed.
\<close>

theorem connection_info_round_trip:
  assumes "pack_shmem_connection_info env job shmem_id [] = (PMIX_SUCCESS, blob)"
      and "pmix_gds_shmem_get_job_shmem_by_id job shmem_id = Inr s"
      and "unat (size_shmem s) < 2 ^ 63" and "unat (base_address s) < 2 ^ 63"
      and "\<not> asprintf_fails env' (nspace_id job)" and "\<not> asprintf_fails env' (backing_path s)"
  shows "unpack_shmem_connection_info env' \<lparr>key = SHMEM_SEG_BLOB_KEY, val = PMIX_BYTE_OBJECT blob\<rparr>
           unpacked_seg_blob_construct
         = (PMIX_SUCCESS,
            \<lparr>nsid = Some (nspace_id job), smid = shmem_id, seg_path = Some (backing_path s),
             seg_size = size_shmem s, seg_addr = base_address s\<rparr>)"
proof -
  from pack_shmem_connection_info_success [OF assms(1)] assms(2)
  have blob: "blob =
      [Inr (SHMEM_SEG_NSID_KEY, nspace_id job),
       Inr (SHMEM_SEG_SMID_KEY, printf_zd (size_t_of_shmem_id shmem_id)),
       Inr (SHMEM_SEG_PATH_KEY, backing_path s),
       Inr (SHMEM_SEG_SIZE_KEY, printf_zx (size_shmem s)),
       Inr (SHMEM_SEG_ADDR_KEY, printf_zx (base_address s))]"
    by auto
  show ?thesis
    using assms(5,6) seg_keys_distinct
    by (simp add: unpack_shmem_connection_info_def blob PMIX_CHECK_KEY_def
          strtost_printf_zx [OF assms(3)] strtost_printf_zx [OF assms(4)]
          strtost_printf_zd_shmem_id shmem_id_of_size_t_inverse unpacked_seg_blob_construct_def)
qed



lemma printf_samples:
  "printf_zd (size_t_of_shmem_id PMIX_GDS_SHMEM_JOB_ID) = ''0''"
  "printf_zx 8192 = ''2000''"
  "printf_zx 0x7f0000000000 = ''7f0000000000''"
  "printf_zx 0x8000000000000000 = ''8000000000000000''"
  by (simp_all add: printf_zd_def printf_d_def printf_zx_def size_t_of_shmem_id_def
        print_unsigned.simps digit_char_def)

lemma sample_pack_ready:
  "pack_shmem_connection_info sample_env sample_job_ready PMIX_GDS_SHMEM_JOB_ID []
   = (PMIX_SUCCESS,
      [Inr (SHMEM_SEG_NSID_KEY, ''nsA''),
       Inr (SHMEM_SEG_SMID_KEY, ''0''),
       Inr (SHMEM_SEG_PATH_KEY, ''/tmp/pmix-gds-shmem.node0-nsA.jobdata.4242''),
       Inr (SHMEM_SEG_SIZE_KEY, ''2000''),
       Inr (SHMEM_SEG_ADDR_KEY, ''7f0000000000'')])"
  by (simp add: pack_shmem_connection_info_def pmix_gds_shmem_get_job_shmem_by_id_def
        sample_job_ready_def sample_job_def bfrops_pack_string_def sample_env_sizes
        printf_samples)

lemma sample_pack_high:
  "pack_shmem_connection_info sample_env sample_job_high PMIX_GDS_SHMEM_JOB_ID []
   = (PMIX_SUCCESS,
      [Inr (SHMEM_SEG_NSID_KEY, ''nsA''),
       Inr (SHMEM_SEG_SMID_KEY, ''0''),
       Inr (SHMEM_SEG_PATH_KEY, ''/tmp/pmix-gds-shmem.node0-nsA.jobdata.4242''),
       Inr (SHMEM_SEG_SIZE_KEY, ''2000''),
       Inr (SHMEM_SEG_ADDR_KEY, ''8000000000000000'')])"
  by (simp add: pack_shmem_connection_info_def pmix_gds_shmem_get_job_shmem_by_id_def
        sample_job_high_def sample_job_def bfrops_pack_string_def sample_env_sizes
        printf_samples)

lemma strtost_samples:
  "strtost ''0'' 10 = (PMIX_SUCCESS, 0)"
  "strtost ''2000'' 16 = (PMIX_SUCCESS, 8192)"
  "strtost ''8000000000000000'' 16 = (PMIX_ERROR, 0)"
  by (simp_all add: strtost_def strtoll_def strtoll_sign_def strtoll_prefix_def isspace_def
        is_digit_in_def digit_value_def LLONG_MAX_def LLONG_MIN_def Let_def)

theorem connection_info_round_trip_witness:
  "pack_shmem_connection_info sample_env sample_job_ready PMIX_GDS_SHMEM_JOB_ID []
     = (PMIX_SUCCESS,
        [Inr (SHMEM_SEG_NSID_KEY, ''nsA''),
         Inr (SHMEM_SEG_SMID_KEY, ''0''),
         Inr (SHMEM_SEG_PATH_KEY, ''/tmp/pmix-gds-shmem.node0-nsA.jobdata.4242''),
         Inr (SHMEM_SEG_SIZE_KEY, ''2000''),
         Inr (SHMEM_SEG_ADDR_KEY, ''7f0000000000'')])
   \<and> pmix_gds_shmem_get_job_shmem_by_id sample_job_ready PMIX_GDS_SHMEM_JOB_ID
     = Inr \<lparr>backing_path = ''/tmp/pmix-gds-shmem.node0-nsA.jobdata.4242'',
            size_shmem = 8192, base_address = 0x7f0000000000\<rparr>
   \<and> unat (8192 :: size_t) < 2 ^ 63 \<and> unat (0x7f0000000000 :: size_t) < 2 ^ 63
   \<and> \<not> asprintf_fails sample_env ''nsA''
   \<and> \<not> asprintf_fails sample_env ''/tmp/pmix-gds-shmem.node0-nsA.jobdata.4242''
   \<and> unpack_shmem_connection_info sample_env
        \<lparr>key = SHMEM_SEG_BLOB_KEY,
         val = PMIX_BYTE_OBJECT
           [Inr (SHMEM_SEG_NSID_KEY, ''nsA''),
            Inr (SHMEM_SEG_SMID_KEY, ''0''),
            Inr (SHMEM_SEG_PATH_KEY, ''/tmp/pmix-gds-shmem.node0-nsA.jobdata.4242''),
            Inr (SHMEM_SEG_SIZE_KEY, ''2000''),
            Inr (SHMEM_SEG_ADDR_KEY, ''7f0000000000'')]\<rparr>
        unpacked_seg_blob_construct
     = (PMIX_SUCCESS,
        \<lparr>nsid = Some ''nsA'', smid = PMIX_GDS_SHMEM_JOB_ID,
         seg_path = Some ''/tmp/pmix-gds-shmem.node0-nsA.jobdata.4242'',
         seg_size = 8192, seg_addr = 0x7f0000000000\<rparr>)"
proof -
  let ?s = "\<lparr>backing_path = ''/tmp/pmix-gds-shmem.node0-nsA.jobdata.4242'',
            size_shmem = 8192, base_address = 0x7f0000000000\<rparr>"
  have g: "pmix_gds_shmem_get_job_shmem_by_id sample_job_ready PMIX_GDS_SHMEM_JOB_ID = Inr ?s"
    by (simp add: pmix_gds_shmem_get_job_shmem_by_id_def sample_job_ready_def)
  have b: "unat (size_shmem ?s) < 2 ^ 63" "unat (base_address ?s) < 2 ^ 63"
    by simp_all
  have m: "\<not> asprintf_fails sample_env (nspace_id sample_job_ready)"
          "\<not> asprintf_fails sample_env (backing_path ?s)"
    by (simp_all add: sample_env_sizes)
  from connection_info_round_trip [OF sample_pack_ready g b m] sample_pack_ready g
  show ?thesis
    by (simp add: sample_env_sizes sample_job_ready_def sample_job_def)
qed

text \<open>
  Claim C3 as stated fails for a segment whose base address is \<open>2 ^ 63\<close>: \<^verbatim>\<open>%zx\<close> prints
  \<^verbatim>\<open>8000000000000000\<close>, which \<^verbatim>\<open>strtoll\<close> reports as out of the range of \<^verbatim>\<open>long long\<close>, and
  the unpacking fails.
\<close>

theorem connection_info_round_trip_counterexample:
  "pack_shmem_connection_info sample_env sample_job_high PMIX_GDS_SHMEM_JOB_ID []
     = (PMIX_SUCCESS,
        [Inr (SHMEM_SEG_NSID_KEY, ''nsA''),
         Inr (SHMEM_SEG_SMID_KEY, ''0''),
         Inr (SHMEM_SEG_PATH_KEY, ''/tmp/pmix-gds-shmem.node0-nsA.jobdata.4242''),
         Inr (SHMEM_SEG_SIZE_KEY, ''2000''),
         Inr (SHMEM_SEG_ADDR_KEY, ''8000000000000000'')])
   \<and> base_address (shmem sample_job_high) = 0x8000000000000000
   \<and> unpack_shmem_connection_info sample_env
        \<lparr>key = SHMEM_SEG_BLOB_KEY,
         val = PMIX_BYTE_OBJECT
           (snd (pack_shmem_connection_info sample_env sample_job_high
                   PMIX_GDS_SHMEM_JOB_ID []))\<rparr>
        unpacked_seg_blob_construct
     = (PMIX_ERR_UNPACK_FAILURE,
        \<lparr>nsid = Some ''nsA'', smid = PMIX_GDS_SHMEM_JOB_ID,
         seg_path = Some ''/tmp/pmix-gds-shmem.node0-nsA.jobdata.4242'',
         seg_size = 8192, seg_addr = 0\<rparr>)"
proof -
  have a: "base_address (shmem sample_job_high) = 0x8000000000000000"
    by (simp add: sample_job_high_def)
  from seg_keys_distinct a show ?thesis
    by (simp add: sample_pack_high unpack_shmem_connection_info_def PMIX_CHECK_KEY_def
          strtost_samples sample_env_sizes shmem_id_of_size_t_def
          unpacked_seg_blob_construct_def)
qed

subsection \<open>Unpacking on a client\<close>

lemma job_tracker_index_less:
  "job_tracker_index nspace jobs = Some i \<Longrightarrow> i < length jobs \<and> nspace_id (jobs ! i) = nspace"
  by (induction jobs arbitrary: i) (auto split: if_splits option.splits)

lemma get_job_tracker_created:
  "pmix_gds_shmem_get_job_tracker nspace True jobs = (r, jobs')
   \<Longrightarrow> \<exists>i. r = Inr i \<and> i < length jobs' \<and> nspace_id (jobs' ! i) = nspace"
  by (auto simp add: pmix_gds_shmem_get_job_tracker_def nth_append job_tracker_index_less
        split: option.splits)

lemma strtost_status: "fst (strtost s base) = PMIX_SUCCESS \<or> fst (strtost s base) = PMIX_ERROR"
  by (simp add: strtost_def split: prod.splits)

lemma unpack_loop_prefix:
  "unpack_shmem_connection_info_loop env (map Inr kvs) usb
     = (PMIX_ERR_UNPACK_READ_PAST_END_OF_BUFFER, usb')
   \<Longrightarrow> unpack_shmem_connection_info_loop env (map Inr kvs @ rest) usb
       = unpack_shmem_connection_info_loop env rest usb'"
proof (induction kvs arbitrary: usb)
  case Nil
  then show ?case by simp
next
  case (Cons kv kvs)
  obtain k v where kv: "kv = (k, v)" by force
  from Cons.prems kv strtost_status [of v 10] strtost_status [of v 16]
  show ?case
    by (auto simp add: Cons.IH split: if_splits prod.splits)
qed


lemma shmem_attach_not_past_end:
  assumes "\<forall>s a. fst (pmix_shmem_segment_attach env s a) \<noteq> PMIX_ERR_UNPACK_READ_PAST_END_OF_BUFFER"
      and "shmem_attach env job i req = (rc, job', ev)"
  shows "rc \<noteq> PMIX_ERR_UNPACK_READ_PAST_END_OF_BUFFER"
proof (cases "pmix_gds_shmem_get_job_shmem_by_id job i")
  case (Inl e)
  then have "e = PMIX_ERROR"
    by (cases i) (simp_all add: pmix_gds_shmem_get_job_shmem_by_id_def)
  with assms(2) Inl show ?thesis by (auto simp add: shmem_attach_def)
next
  case (Inr s0)
  obtain rc1 a1 s1 where a: "pmix_shmem_segment_attach env s0 req = (rc1, a1, s1)"
    by (metis prod_cases3)
  with assms(1) have "rc1 \<noteq> PMIX_ERR_UNPACK_READ_PAST_END_OF_BUFFER"
    by (metis fst_conv)
  with assms(2) Inr a show ?thesis
    by (auto simp add: shmem_attach_def Let_def split: if_splits)
qed

lemma attach_and_init_not_past_end:
  assumes "\<forall>s a. fst (pmix_shmem_segment_attach env s a) \<noteq> PMIX_ERR_UNPACK_READ_PAST_END_OF_BUFFER"
      and "shmem_segment_attach_and_init env job seginfo = Returned (rc, job', ev)"
  shows "rc \<noteq> PMIX_ERR_UNPACK_READ_PAST_END_OF_BUFFER"
proof (cases "pmix_gds_shmem_get_job_shmem_by_id job (smid seginfo)")
  case (Inl e)
  then have "e = PMIX_ERROR"
    by (cases "smid seginfo") (simp_all add: pmix_gds_shmem_get_job_shmem_by_id_def)
  with assms(2) Inl show ?thesis by (auto simp add: shmem_segment_attach_and_init_def)
next
  case (Inr s0)
  show ?thesis
  proof (cases "seg_path seginfo")
    case None
    with assms(2) Inr show ?thesis by (simp add: shmem_segment_attach_and_init_def)
  next
    case (Some p)
    define job1 where "job1 = put_job_shmem job (smid seginfo)
      (s0\<lparr>backing_path := pmix_string_copy p (path_max env), size_shmem := seg_size seginfo\<rparr>)"
    obtain rc2 job2 ev2 where
      a: "shmem_attach env job1 (smid seginfo) (seg_addr seginfo) = (rc2, job2, ev2)"
      by (metis prod_cases3)
    note n = shmem_attach_not_past_end [OF assms(1) a]
    have i: "fst (init_client_side_sm_data job2 (smid seginfo))
               \<noteq> PMIX_ERR_UNPACK_READ_PAST_END_OF_BUFFER"
      by (cases "smid seginfo") (simp_all add: init_client_side_sm_data_def)
    from assms(2) Inr Some a n i show ?thesis
      by (auto simp add: shmem_segment_attach_and_init_def Let_def job1_def [symmetric]
            split: if_splits prod.splits)
  qed
qed

lemma unpack_connection_info_status:
  "fst (unpack_shmem_connection_info env kvbo usb)
     \<in> {PMIX_SUCCESS, PMIX_ERR_UNPACK_FAILURE, PMIX_ERR_TYPE_MISMATCH}"
  by (cases "val kvbo") (auto simp add: unpack_shmem_connection_info_def split: prod.splits)

lemma seg_blob_attach_not_past_end:
  assumes "\<forall>s a. fst (pmix_shmem_segment_attach env s a) \<noteq> PMIX_ERR_UNPACK_READ_PAST_END_OF_BUFFER"
      and "unpack_shmem_seg_blob_and_attach_if_necessary env jobs kvbo = Returned (rc, jobs', ev)"
  shows "rc \<noteq> PMIX_ERR_UNPACK_READ_PAST_END_OF_BUFFER"
proof -
  obtain rc0 usb where
    u: "unpack_shmem_connection_info env kvbo unpacked_seg_blob_construct = (rc0, usb)"
    by force
  with unpack_connection_info_status [of env kvbo unpacked_seg_blob_construct]
  have rc0: "rc0 \<in> {PMIX_SUCCESS, PMIX_ERR_UNPACK_FAILURE, PMIX_ERR_TYPE_MISMATCH}"
    by simp
  show ?thesis
  proof (cases "rc0 = PMIX_SUCCESS")
    case False
    with assms(2) u rc0 show ?thesis
      by (auto simp add: unpack_shmem_seg_blob_and_attach_if_necessary_def)
  next
    case True
    show ?thesis
    proof (cases "nsid usb")
      case None
      with assms(2) u True show ?thesis
        by (simp add: unpack_shmem_seg_blob_and_attach_if_necessary_def)
    next
      case (Some ns)
      obtain r jobs1 where g: "pmix_gds_shmem_get_job_tracker ns True jobs = (r, jobs1)"
        by force
      then obtain i where r: "r = Inr i"
        by (auto simp add: pmix_gds_shmem_get_job_tracker_def split: option.splits)
      show ?thesis
      proof (cases "pmix_gds_shmem_has_status (jobs1 ! i) (smid usb) PMIX_GDS_SHMEM_ATTACHED")
        case True
        with assms(2) u \<open>rc0 = PMIX_SUCCESS\<close> Some g r show ?thesis
          by (simp add: unpack_shmem_seg_blob_and_attach_if_necessary_def)
      next
        case False
        show ?thesis
        proof (cases "shmem_segment_attach_and_init env (jobs1 ! i) usb")
          case Aborted
          with assms(2) u \<open>rc0 = PMIX_SUCCESS\<close> Some g r False show ?thesis
            by (simp add: unpack_shmem_seg_blob_and_attach_if_necessary_def)
        next
          case (Returned x)
          obtain rc2 job' ev2 where x: "x = (rc2, job', ev2)"
            by (metis prod_cases3)
          from attach_and_init_not_past_end [OF assms(1) Returned [unfolded x]]
            assms(2) u \<open>rc0 = PMIX_SUCCESS\<close> Some g r False Returned x
          show ?thesis
            by (simp add: unpack_shmem_seg_blob_and_attach_if_necessary_def)
        qed
      qed
    qed
  qed
qed

lemma store_loop_prefix:
  assumes "\<forall>s a. fst (pmix_shmem_segment_attach env s a) \<noteq> PMIX_ERR_UNPACK_READ_PAST_END_OF_BUFFER"
  shows "store_job_info_loop env (map Inr kvs) jobs ev
           = Returned (PMIX_ERR_UNPACK_READ_PAST_END_OF_BUFFER, jobs', ev')
         \<Longrightarrow> store_job_info_loop env (map Inr kvs @ rest) jobs ev
             = store_job_info_loop env rest jobs' ev'"
proof (induction kvs arbitrary: jobs ev)
  case Nil
  then show ?case by simp
next
  case (Cons kv kvs)
  show ?case
  proof (cases "PMIX_CHECK_KEY (key kv) SHMEM_SEG_BLOB_KEY")
    case True
    show ?thesis
    proof (cases "unpack_shmem_seg_blob_and_attach_if_necessary env jobs kv")
      case Aborted
      with Cons.prems True show ?thesis by simp
    next
      case (Returned x)
      obtain rc j1 e1 where x: "x = (rc, j1, e1)"
        by (metis prod_cases3)
      note n = seg_blob_attach_not_past_end [OF assms Returned [unfolded x]]
      show ?thesis
      proof (cases "rc = PMIX_SUCCESS")
        case False
        with Cons.prems True Returned x n show ?thesis by simp
      next
        case rc: True
        with Cons.prems True Returned x
        have "store_job_info_loop env (map Inr kvs) j1 (ev @ e1)
                = Returned (PMIX_ERR_UNPACK_READ_PAST_END_OF_BUFFER, jobs', ev')"
          by simp
        from Cons.IH [OF this] True Returned x rc show ?thesis by simp
      qed
    qed
  next
    case False
    with Cons.prems Cons.IH show ?thesis
      by (auto split: if_splits)
  qed
qed


text \<open>
  Claim C2, as the code has it. Unpacking a connection-info blob returns success exactly
  when its loop ends with the status "read past end of buffer"; when the loop, having
  unpacked the pairs before it, meets a key that is none of the five recognised ones, it
  ends with the bad-parameter status, and the operation returns the unpack-failure status,
  as it does for every other end of the loop. The same holds for \<^verbatim>\<open>store_job_info\<close> on a reply
  buffer (where it returns at all: a blob without a namespace or a path ends the process),
  with the blob key and the three info-array keys recognised, provided the shared-memory
  primitive never returns the codec's "read past end of buffer" status itself.
\<close>

theorem unexpected_key_fails:
  assumes "\<forall>s a. fst (pmix_shmem_segment_attach env s a) \<noteq> PMIX_ERR_UNPACK_READ_PAST_END_OF_BUFFER"
  shows "((fst (unpack_shmem_connection_info env \<lparr>key = bkey, val = PMIX_BYTE_OBJECT blob\<rparr> usb)
             = PMIX_SUCCESS)
          = (fst (unpack_shmem_connection_info_loop env blob usb)
             = PMIX_ERR_UNPACK_READ_PAST_END_OF_BUFFER))
       \<and> (k \<notin> {SHMEM_SEG_NSID_KEY, SHMEM_SEG_SMID_KEY, SHMEM_SEG_PATH_KEY, SHMEM_SEG_SIZE_KEY,
                 SHMEM_SEG_ADDR_KEY} \<longrightarrow>
            unpack_shmem_connection_info_loop env (map Inr kvs) usb
              = (PMIX_ERR_UNPACK_READ_PAST_END_OF_BUFFER, usb') \<longrightarrow>
            unpack_shmem_connection_info_loop env (map Inr kvs @ Inr (k, v) # rest) usb
              = (PMIX_ERR_BAD_PARAM, usb')
            \<and> unpack_shmem_connection_info env
                 \<lparr>key = bkey, val = PMIX_BYTE_OBJECT (map Inr kvs @ Inr (k, v) # rest)\<rparr> usb
              = (PMIX_ERR_UNPACK_FAILURE, usb'))
       \<and> (case store_job_info env nspace buff jobs of
             Aborted \<Rightarrow> store_job_info_loop env buff jobs [] = Aborted
           | Returned (rc, j, e) \<Rightarrow>
               (\<exists>rc0. store_job_info_loop env buff jobs [] = Returned (rc0, j, e)
                  \<and> (rc = PMIX_SUCCESS) = (rc0 = PMIX_ERR_UNPACK_READ_PAST_END_OF_BUFFER)
                  \<and> (rc = PMIX_SUCCESS \<or> rc = PMIX_ERR_UNPACK_FAILURE)))
       \<and> (key kv \<notin> {SHMEM_SEG_BLOB_KEY, PMIX_SESSION_INFO_ARRAY, PMIX_NODE_INFO_ARRAY,
                      PMIX_APP_INFO_ARRAY} \<longrightarrow>
            store_job_info_loop env (map Inr kvals) jobs []
              = Returned (PMIX_ERR_UNPACK_READ_PAST_END_OF_BUFFER, jobs', ev) \<longrightarrow>
            store_job_info_loop env (map Inr kvals @ Inr kv # rest') jobs []
              = Returned (PMIX_ERR_BAD_PARAM, jobs', ev)
            \<and> store_job_info env nspace (map Inr kvals @ Inr kv # rest') jobs
              = Returned (PMIX_ERR_UNPACK_FAILURE, jobs', ev))"
proof (intro conjI impI)
  show "(fst (unpack_shmem_connection_info env \<lparr>key = bkey, val = PMIX_BYTE_OBJECT blob\<rparr> usb)
             = PMIX_SUCCESS)
          = (fst (unpack_shmem_connection_info_loop env blob usb)
             = PMIX_ERR_UNPACK_READ_PAST_END_OF_BUFFER)"
    by (simp add: unpack_shmem_connection_info_def split_def)
next
  assume k: "k \<notin> {SHMEM_SEG_NSID_KEY, SHMEM_SEG_SMID_KEY, SHMEM_SEG_PATH_KEY, SHMEM_SEG_SIZE_KEY,
                 SHMEM_SEG_ADDR_KEY}"
    and p: "unpack_shmem_connection_info_loop env (map Inr kvs) usb
              = (PMIX_ERR_UNPACK_READ_PAST_END_OF_BUFFER, usb')"
  from k unpack_loop_prefix [OF p, of "Inr (k, v) # rest"]
  show l: "unpack_shmem_connection_info_loop env (map Inr kvs @ Inr (k, v) # rest) usb
              = (PMIX_ERR_BAD_PARAM, usb')"
    by (simp add: PMIX_CHECK_KEY_def)
  then show "unpack_shmem_connection_info env
                 \<lparr>key = bkey, val = PMIX_BYTE_OBJECT (map Inr kvs @ Inr (k, v) # rest)\<rparr> usb
              = (PMIX_ERR_UNPACK_FAILURE, usb')"
    by (simp add: unpack_shmem_connection_info_def)
next
  show "case store_job_info env nspace buff jobs of
             Aborted \<Rightarrow> store_job_info_loop env buff jobs [] = Aborted
           | Returned (rc, j, e) \<Rightarrow>
               (\<exists>rc0. store_job_info_loop env buff jobs [] = Returned (rc0, j, e)
                  \<and> (rc = PMIX_SUCCESS) = (rc0 = PMIX_ERR_UNPACK_READ_PAST_END_OF_BUFFER)
                  \<and> (rc = PMIX_SUCCESS \<or> rc = PMIX_ERR_UNPACK_FAILURE))"
    by (cases "store_job_info_loop env buff jobs []")
       (auto simp add: store_job_info_def split: if_splits)
next
  assume k: "key kv \<notin> {SHMEM_SEG_BLOB_KEY, PMIX_SESSION_INFO_ARRAY, PMIX_NODE_INFO_ARRAY,
                      PMIX_APP_INFO_ARRAY}"
    and p: "store_job_info_loop env (map Inr kvals) jobs []
              = Returned (PMIX_ERR_UNPACK_READ_PAST_END_OF_BUFFER, jobs', ev)"
  from k store_loop_prefix [OF assms p, of "Inr kv # rest'"]
  show l: "store_job_info_loop env (map Inr kvals @ Inr kv # rest') jobs []
              = Returned (PMIX_ERR_BAD_PARAM, jobs', ev)"
    by (simp add: PMIX_CHECK_KEY_def)
  then show "store_job_info env nspace (map Inr kvals @ Inr kv # rest') jobs
              = Returned (PMIX_ERR_UNPACK_FAILURE, jobs', ev)"
    by (simp add: store_job_info_def)
qed


lemma sample_attach_status:
  "\<forall>s a. fst (pmix_shmem_segment_attach sample_env s a) \<noteq> PMIX_ERR_UNPACK_READ_PAST_END_OF_BUFFER"
  by (simp add: sample_env_simps)

lemma foo_unrecognised:
  "''FOO'' \<notin> {SHMEM_SEG_NSID_KEY, SHMEM_SEG_SMID_KEY, SHMEM_SEG_PATH_KEY, SHMEM_SEG_SIZE_KEY,
      SHMEM_SEG_ADDR_KEY}"
  "''FOO'' \<notin> {SHMEM_SEG_BLOB_KEY, PMIX_SESSION_INFO_ARRAY, PMIX_NODE_INFO_ARRAY,
      PMIX_APP_INFO_ARRAY}"
  by (simp_all add: SHMEM_SEG_NSID_KEY_def SHMEM_SEG_SMID_KEY_def SHMEM_SEG_PATH_KEY_def
        SHMEM_SEG_SIZE_KEY_def SHMEM_SEG_ADDR_KEY_def SHMEM_SEG_BLOB_KEY_def
        PMIX_SESSION_INFO_ARRAY_def PMIX_NODE_INFO_ARRAY_def PMIX_APP_INFO_ARRAY_def)

lemma sample_blob_prefix:
  "unpack_shmem_connection_info_loop sample_env (map Inr [(SHMEM_SEG_NSID_KEY, ''nsA'')])
       unpacked_seg_blob_construct
     = (PMIX_ERR_UNPACK_READ_PAST_END_OF_BUFFER, unpacked_seg_blob_construct\<lparr>nsid := Some ''nsA''\<rparr>)"
  by (simp add: PMIX_CHECK_KEY_def sample_env_sizes)

lemma sample_reply_prefix:
  "store_job_info_loop sample_env
       (map Inr [\<lparr>key = PMIX_NODE_INFO_ARRAY, val = PMIX_DATA_ARRAY 2\<rparr>]) [] []
     = Returned (PMIX_ERR_UNPACK_READ_PAST_END_OF_BUFFER, [], [])"
  by (simp add: PMIX_CHECK_KEY_def SHMEM_SEG_BLOB_KEY_def PMIX_NODE_INFO_ARRAY_def)

theorem unexpected_key_fails_witness:
  "(\<forall>s a. fst (pmix_shmem_segment_attach sample_env s a)
             \<noteq> PMIX_ERR_UNPACK_READ_PAST_END_OF_BUFFER)
   \<and> ''FOO'' \<notin> {SHMEM_SEG_NSID_KEY, SHMEM_SEG_SMID_KEY, SHMEM_SEG_PATH_KEY, SHMEM_SEG_SIZE_KEY,
        SHMEM_SEG_ADDR_KEY}
   \<and> unpack_shmem_connection_info_loop sample_env (map Inr [(SHMEM_SEG_NSID_KEY, ''nsA'')])
        unpacked_seg_blob_construct
      = (PMIX_ERR_UNPACK_READ_PAST_END_OF_BUFFER,
         unpacked_seg_blob_construct\<lparr>nsid := Some ''nsA''\<rparr>)
   \<and> unpack_shmem_connection_info sample_env
        \<lparr>key = SHMEM_SEG_BLOB_KEY,
         val = PMIX_BYTE_OBJECT
           [Inr (SHMEM_SEG_NSID_KEY, ''nsA''), Inr (''FOO'', ''bar''),
            Inr (SHMEM_SEG_SMID_KEY, ''0'')]\<rparr>
        unpacked_seg_blob_construct
      = (PMIX_ERR_UNPACK_FAILURE, unpacked_seg_blob_construct\<lparr>nsid := Some ''nsA''\<rparr>)
   \<and> unpack_shmem_connection_info sample_env
        \<lparr>key = SHMEM_SEG_BLOB_KEY,
         val = PMIX_BYTE_OBJECT [Inr (SHMEM_SEG_NSID_KEY, ''nsA'')]\<rparr>
        unpacked_seg_blob_construct
      = (PMIX_SUCCESS, unpacked_seg_blob_construct\<lparr>nsid := Some ''nsA''\<rparr>)
   \<and> key \<lparr>key = ''FOO'', val = PMIX_STRING ''bar''\<rparr>
        \<notin> {SHMEM_SEG_BLOB_KEY, PMIX_SESSION_INFO_ARRAY, PMIX_NODE_INFO_ARRAY,
           PMIX_APP_INFO_ARRAY}
   \<and> store_job_info_loop sample_env
        (map Inr [\<lparr>key = PMIX_NODE_INFO_ARRAY, val = PMIX_DATA_ARRAY 2\<rparr>]) [] []
      = Returned (PMIX_ERR_UNPACK_READ_PAST_END_OF_BUFFER, [], [])
   \<and> store_job_info sample_env ''nsA''
        [Inr \<lparr>key = PMIX_NODE_INFO_ARRAY, val = PMIX_DATA_ARRAY 2\<rparr>,
         Inr \<lparr>key = ''FOO'', val = PMIX_STRING ''bar''\<rparr>] []
      = Returned (PMIX_ERR_UNPACK_FAILURE, [], [])
   \<and> store_job_info sample_env ''nsA''
        [Inr \<lparr>key = PMIX_NODE_INFO_ARRAY, val = PMIX_DATA_ARRAY 2\<rparr>] []
      = Returned (PMIX_SUCCESS, [], [])"
proof -
  note t = unexpected_key_fails [OF sample_attach_status,
      where bkey = SHMEM_SEG_BLOB_KEY and usb = unpacked_seg_blob_construct
        and k = "''FOO''" and v = "''bar''" and kvs = "[(SHMEM_SEG_NSID_KEY, ''nsA'')]"
        and rest = "[Inr (SHMEM_SEG_SMID_KEY, ''0'')]"
        and usb' = "unpacked_seg_blob_construct\<lparr>nsid := Some ''nsA''\<rparr>"
        and blob = "[Inr (SHMEM_SEG_NSID_KEY, ''nsA'')]"
        and nspace = "''nsA''" and jobs = "[]" and jobs' = "[]" and ev = "[]"
        and kvals = "[\<lparr>key = PMIX_NODE_INFO_ARRAY, val = PMIX_DATA_ARRAY 2\<rparr>]"
        and kv = "\<lparr>key = ''FOO'', val = PMIX_STRING ''bar''\<rparr>" and rest' = "[]"
        and buff = "[Inr \<lparr>key = PMIX_NODE_INFO_ARRAY, val = PMIX_DATA_ARRAY 2\<rparr>]"]
  have ok: "store_job_info sample_env ''nsA''
        [Inr \<lparr>key = PMIX_NODE_INFO_ARRAY, val = PMIX_DATA_ARRAY 2\<rparr>] []
      = Returned (PMIX_SUCCESS, [], [])"
    using sample_reply_prefix by (simp add: store_job_info_def)
  have ok2: "unpack_shmem_connection_info sample_env
        \<lparr>key = SHMEM_SEG_BLOB_KEY,
         val = PMIX_BYTE_OBJECT [Inr (SHMEM_SEG_NSID_KEY, ''nsA'')]\<rparr>
        unpacked_seg_blob_construct
      = (PMIX_SUCCESS, unpacked_seg_blob_construct\<lparr>nsid := Some ''nsA''\<rparr>)"
    using sample_blob_prefix by (simp add: unpack_shmem_connection_info_def)
  from t sample_attach_status foo_unrecognised sample_blob_prefix sample_reply_prefix ok ok2
  show ?thesis
    by simp
qed

text \<open>
  Claim C2 as stated fails: a blob, or a reply, whose only pair has the key \<^verbatim>\<open>FOO\<close> makes the
  operation return the unpack-failure status, not the bad-parameter status.
\<close>

theorem unexpected_key_counterexample:
  "''FOO'' \<notin> {SHMEM_SEG_NSID_KEY, SHMEM_SEG_SMID_KEY, SHMEM_SEG_PATH_KEY, SHMEM_SEG_SIZE_KEY,
        SHMEM_SEG_ADDR_KEY}
   \<and> fst (unpack_shmem_connection_info sample_env
        \<lparr>key = SHMEM_SEG_BLOB_KEY, val = PMIX_BYTE_OBJECT [Inr (''FOO'', ''bar'')]\<rparr>
        unpacked_seg_blob_construct) = PMIX_ERR_UNPACK_FAILURE
   \<and> fst (unpack_shmem_connection_info sample_env
        \<lparr>key = SHMEM_SEG_BLOB_KEY, val = PMIX_BYTE_OBJECT [Inr (''FOO'', ''bar'')]\<rparr>
        unpacked_seg_blob_construct) \<noteq> PMIX_ERR_BAD_PARAM
   \<and> ''FOO'' \<notin> {SHMEM_SEG_BLOB_KEY, PMIX_SESSION_INFO_ARRAY, PMIX_NODE_INFO_ARRAY,
        PMIX_APP_INFO_ARRAY}
   \<and> store_job_info sample_env ''nsA'' [Inr \<lparr>key = ''FOO'', val = PMIX_STRING ''bar''\<rparr>] []
      = Returned (PMIX_ERR_UNPACK_FAILURE, [], [])"
  using foo_unrecognised
  by (simp add: unpack_shmem_connection_info_def store_job_info_def PMIX_CHECK_KEY_def)


end
